theory Spec2Isabelle
  imports Complex_Main "HOL-Library.Char_ord" "HOL-Library.List_Lexorder"
    "HOL-Library.Product_Lexorder"
begin

section \<open>The JavaScript runtime the services run on\<close>

text \<open>
  Instants are JavaScript time values: milliseconds since 1970-01-01T00:00Z, as an
  integer. A \<open>Date\<close> object is an \<open>int option\<close>; \<open>None\<close> is the Invalid Date,
  whose time value is NaN. A number that may be NaN is an \<open>int option\<close> as well.
  Numbers are exact integers here (JavaScript's are exact below \<open>2^53\<close>). An argument
  of type \<open>instant\<close> is the time value of a valid Date.

  The process runs in the UTC zone (the image of the Dockerfile, node:18-alpine, sets no
  other), so the local-time getters and setters of \<open>Date\<close> are the UTC ones. The
  operations below are the abstract operations of ECMAScript's Date objects.
\<close>

type_synonym instant = int

definition msPerDay :: int where "msPerDay = 86400000"
definition msPerHour :: int where "msPerHour = 3600000"
definition msPerMinute :: int where "msPerMinute = 60000"
definition msPerSecond :: int where "msPerSecond = 1000"

definition Day :: "instant \<Rightarrow> int" where
  "Day t = t div msPerDay"

definition TimeWithinDay :: "instant \<Rightarrow> int" where
  "TimeWithinDay t = t mod msPerDay"

definition HourFromTime :: "instant \<Rightarrow> int" where
  "HourFromTime t = (t div msPerHour) mod 24"

definition MinFromTime :: "instant \<Rightarrow> int" where
  "MinFromTime t = (t div msPerMinute) mod 60"

definition SecFromTime :: "instant \<Rightarrow> int" where
  "SecFromTime t = (t div msPerSecond) mod 60"

definition msFromTime :: "instant \<Rightarrow> int" where
  "msFromTime t = t mod msPerSecond"

definition WeekDay :: "instant \<Rightarrow> int" where
  "WeekDay t = (Day t + 4) mod 7"

definition TimeClip :: "int \<Rightarrow> instant option" where
  "TimeClip t = (if \<bar>t\<bar> \<le> 8640000000000000 then Some t else None)"

definition MakeTime :: "int \<Rightarrow> int \<Rightarrow> int \<Rightarrow> int \<Rightarrow> int" where
  "MakeTime h m s ms = h * msPerHour + m * msPerMinute + s * msPerSecond + ms"

definition MakeDate :: "int \<Rightarrow> int \<Rightarrow> int" where
  "MakeDate day time = day * msPerDay + time"

text \<open>
  The proleptic Gregorian calendar: the civil date (year, month 0..11, day of month
  1..31) of a day number, and the day number of the first day of a month.
\<close>

definition days_before_year :: "int \<Rightarrow> int" where
  \<comment> \<open>days of an era of 400 years that lie before a year of it; years begin in March\<close>
  "days_before_year yoe = 365 * yoe + yoe div 4 - yoe div 100"

definition year_of_era :: "int \<Rightarrow> int" where
  \<comment> \<open>the year, 0 to 399, that holds a day of the era\<close>
  "year_of_era doe = (doe - doe div 1460 + doe div 36524 - doe div 146096) div 365"

definition last_day_of_year :: "int \<Rightarrow> int" where
  \<comment> \<open>the last day of a year of the era; the year 399 ends with the leap day\<close>
  "last_day_of_year yoe = (if yoe = 399 then 146096 else days_before_year (yoe + 1) - 1)"

definition civil_from_days :: "int \<Rightarrow> int \<times> int \<times> int" where
  "civil_from_days z =
     (let z1 = z + 719468;
          era = z1 div 146097;
          doe = z1 - era * 146097;
          yoe = year_of_era doe;
          doy = doe - days_before_year yoe;
          mp = (5 * doy + 2) div 153;
          d = doy - (153 * mp + 2) div 5 + 1;
          m = (if mp < 10 then mp + 2 else mp - 10);
          y = yoe + era * 400 + (if m \<le> 1 then 1 else 0)
      in (y, m, d))"

definition days_from_civil :: "int \<Rightarrow> int \<Rightarrow> int" where
  "days_from_civil y m =
     (let y1 = (if m \<le> 1 then y - 1 else y);
          era = y1 div 400;
          yoe = y1 - era * 400;
          mp = (if m \<le> 1 then m + 10 else m - 2);
          doy = (153 * mp + 2) div 5;
          doe = days_before_year yoe + doy
      in era * 146097 + doe - 719468)"

definition YearFromTime :: "instant \<Rightarrow> int" where
  "YearFromTime t = fst (civil_from_days (Day t))"

definition MonthFromTime :: "instant \<Rightarrow> int" where
  "MonthFromTime t = fst (snd (civil_from_days (Day t)))"

definition DateFromTime :: "instant \<Rightarrow> int" where
  "DateFromTime t = snd (snd (civil_from_days (Day t)))"

definition MakeDay :: "int \<Rightarrow> int \<Rightarrow> int \<Rightarrow> int" where
  "MakeDay year month date = days_from_civil (year + month div 12) (month mod 12) + date - 1"

definition Date_UTC :: "int \<Rightarrow> int \<Rightarrow> int \<Rightarrow> int \<Rightarrow> int \<Rightarrow> instant" where
  \<comment> \<open>\<open>Date.UTC(year, month, date, hours, minutes)\<close>, months counted from 0\<close>
  "Date_UTC year month date hours minutes =
     MakeDate (MakeDay year month date) (MakeTime hours minutes 0 0)"

text \<open>The methods of \<open>Date\<close> the services call, on a valid time value.\<close>

definition getHours :: "instant \<Rightarrow> int" where
  "getHours t = HourFromTime t"

definition getMinutes :: "instant \<Rightarrow> int" where
  "getMinutes t = MinFromTime t"

definition getDate :: "instant \<Rightarrow> int" where
  "getDate t = DateFromTime t"

definition getMonth :: "instant \<Rightarrow> int" where
  "getMonth t = MonthFromTime t"

definition getDay :: "instant \<Rightarrow> int" where
  "getDay t = WeekDay t"

definition setHours :: "instant \<Rightarrow> int \<Rightarrow> instant option" where
  \<comment> \<open>\<open>setHours(hour)\<close>: minutes, seconds and milliseconds are kept\<close>
  "setHours t hour =
     TimeClip (MakeDate (Day t) (MakeTime hour (MinFromTime t) (SecFromTime t) (msFromTime t)))"

definition setHours4 :: "instant \<Rightarrow> int \<Rightarrow> int \<Rightarrow> int \<Rightarrow> int \<Rightarrow> instant option" where
  \<comment> \<open>\<open>setHours(hour, min, sec, ms)\<close>\<close>
  "setHours4 t hour m s ms = TimeClip (MakeDate (Day t) (MakeTime hour m s ms))"

definition setMinutes :: "instant \<Rightarrow> int \<Rightarrow> instant option" where
  "setMinutes t m =
     TimeClip (MakeDate (Day t) (MakeTime (HourFromTime t) m (SecFromTime t) (msFromTime t)))"

definition setDate :: "instant \<Rightarrow> int \<Rightarrow> instant option" where
  \<comment> \<open>\<open>MakeDay(YearFromTime(t), MonthFromTime(t), date)\<close> is the day number of the first
      day of the month of \<open>t\<close>, which is \<open>Day t - DateFromTime t + 1\<close>, plus \<open>date - 1\<close>
      (\<open>setDate_is_MakeDay\<close> below)\<close>
  "setDate t date =
     TimeClip (MakeDate (Day t - DateFromTime t + date) (TimeWithinDay t))"

definition setMonth :: "instant \<Rightarrow> int \<Rightarrow> instant option" where
  \<comment> \<open>the day of month is kept as a number: a day past the end of the target month
      runs over into the month after it\<close>
  "setMonth t month =
     TimeClip (MakeDate (MakeDay (YearFromTime t) month (DateFromTime t)) (TimeWithinDay t))"

section \<open>Strings\<close>

text \<open>
  Strings are ASCII here. \<open>parseInt\<close> reads optional white space, an optional sign, an
  optional \<open>0x\<close> prefix and the longest run of digits of the radix; with no digit it is NaN.
\<close>

definition isWhiteSpace :: "char \<Rightarrow> bool" where
  "isWhiteSpace c = (of_char c \<in> set [9, 10, 11, 12, 13, 32 :: nat])"

definition trim :: "string \<Rightarrow> string" where
  "trim s = rev (dropWhile isWhiteSpace (rev (dropWhile isWhiteSpace s)))"

definition toUpperCase_char :: "char \<Rightarrow> char" where
  "toUpperCase_char c =
     (let n = of_char c :: nat in if 97 \<le> n \<and> n \<le> 122 then char_of (n - 32) else c)"

definition toLowerCase_char :: "char \<Rightarrow> char" where
  "toLowerCase_char c =
     (let n = of_char c :: nat in if 65 \<le> n \<and> n \<le> 90 then char_of (n + 32) else c)"

definition toUpperCase :: "string \<Rightarrow> string" where
  "toUpperCase s = map toUpperCase_char s"

definition toLowerCase :: "string \<Rightarrow> string" where
  "toLowerCase s = map toLowerCase_char s"

definition digit_value :: "char \<Rightarrow> nat option" where
  "digit_value c =
     (let n = of_char c :: nat in
      if 48 \<le> n \<and> n \<le> 57 then Some (n - 48)
      else if 97 \<le> n \<and> n \<le> 102 then Some (n - 87)
      else if 65 \<le> n \<and> n \<le> 70 then Some (n - 55)
      else None)"

definition isDigitOf :: "nat \<Rightarrow> char \<Rightarrow> bool" where
  "isDigitOf radix c = (case digit_value c of None \<Rightarrow> False | Some v \<Rightarrow> v < radix)"

definition digits_value :: "nat \<Rightarrow> string \<Rightarrow> int" where
  "digits_value radix ds =
     foldl (\<lambda>acc c. acc * int radix + int (case digit_value c of None \<Rightarrow> 0 | Some v \<Rightarrow> v)) 0 ds"

definition parseInt :: "string \<Rightarrow> int option" where
  "parseInt s =
     (let s1 = dropWhile isWhiteSpace s;
          neg = (take 1 s1 = ''-'');
          s2 = (if take 1 s1 = ''-'' \<or> take 1 s1 = ''+'' then drop 1 s1 else s1);
          hex = (take 2 s2 = ''0x'' \<or> take 2 s2 = ''0X'');
          radix = (if hex then 16 else 10);
          s3 = (if hex then drop 2 s2 else s2);
          ds = takeWhile (isDigitOf radix) s3
      in if ds = [] then None
         else Some ((if neg then - 1 else 1) * digits_value radix ds))"

definition slice_last :: "string \<Rightarrow> string" where
  \<comment> \<open>\<open>s.slice(-1)\<close>: the last character, or the empty string\<close>
  "slice_last s = drop (length s - 1) s"

definition slice_init :: "string \<Rightarrow> string" where
  \<comment> \<open>\<open>s.slice(0, -1)\<close>: all but the last character\<close>
  "slice_init s = take (length s - 1) s"

section \<open>TimezoneUtils\<close>

text \<open>
  The zone data of the runtime (Intl and date-fns-tz read the same tables) is a
  parameter: \<open>zones name\<close> is \<open>None\<close> for a name that is not a zone, and otherwise
  the offset from UTC, in milliseconds, that the zone has at an instant.
\<close>

type_synonym tzdb = "string \<Rightarrow> (instant \<Rightarrow> int) option"

datatype error = Error string

definition COMMON_TIMEZONES :: "(string \<times> string) list" where
  "COMMON_TIMEZONES =
     [(''UTC'', ''UTC''), (''GMT'', ''UTC''),
      (''EST'', ''America/New_York''), (''EDT'', ''America/New_York''),
      (''CST'', ''America/Chicago''), (''CDT'', ''America/Chicago''),
      (''MST'', ''America/Denver''), (''MDT'', ''America/Denver''),
      (''PST'', ''America/Los_Angeles''), (''PDT'', ''America/Los_Angeles''),
      (''CET'', ''Europe/Paris''), (''CEST'', ''Europe/Paris''),
      (''JST'', ''Asia/Tokyo''),
      (''AEST'', ''Australia/Sydney''), (''AEDT'', ''Australia/Sydney'')]"

definition TIMEZONE_ALIASES :: "(string \<times> string) list" where
  "TIMEZONE_ALIASES =
     [(''helsinki'', ''Europe/Helsinki''), (''berlin'', ''Europe/Berlin''),
      (''london'', ''Europe/London''), (''paris'', ''Europe/Paris''),
      (''tokyo'', ''Asia/Tokyo''), (''sydney'', ''Australia/Sydney''),
      (''new york'', ''America/New_York''), (''los angeles'', ''America/Los_Angeles''),
      (''chicago'', ''America/Chicago''), (''denver'', ''America/Denver'')]"

datatype timezone_value = ZoneName string | InheritedProperty

definition Object_prototype_keys :: "string list" where
  \<comment> \<open>the property names every object literal inherits\<close>
  "Object_prototype_keys =
     [''constructor'', ''__proto__'', ''hasOwnProperty'', ''isPrototypeOf'',
      ''propertyIsEnumerable'', ''toString'', ''toLocaleString'', ''valueOf'',
      ''__defineGetter__'', ''__defineSetter__'', ''__lookupGetter__'', ''__lookupSetter__'']"

definition table_lookup :: "(string \<times> string) list \<Rightarrow> string \<Rightarrow> timezone_value option" where
  \<comment> \<open>\<open>TABLE[key]\<close> when it is truthy: the zone written for an own key, or the function or
      object that an inherited property name gives; \<open>None\<close> is \<open>undefined\<close>\<close>
  "table_lookup table key =
     (case map_of table key of
        Some z \<Rightarrow> Some (ZoneName z)
      | None \<Rightarrow> (if key \<in> set Object_prototype_keys then Some InheritedProperty else None))"

definition normalizeTimezone :: "tzdb \<Rightarrow> string \<Rightarrow> error + timezone_value" where
  \<comment> \<open>a missing (null) zone is the empty string, which is falsy as well\<close>
  "normalizeTimezone zones timezone =
     (if timezone = [] then Inr (ZoneName ''UTC'')
      else let tz = trim timezone in
        case table_lookup COMMON_TIMEZONES (toUpperCase tz) of
          Some v \<Rightarrow> Inr v
        | None \<Rightarrow>
            (case table_lookup TIMEZONE_ALIASES (toLowerCase tz) of
               Some v \<Rightarrow> Inr v
             | None \<Rightarrow>
                 (case zones tz of
                    Some off \<Rightarrow> Inr (ZoneName tz)
                  | None \<Rightarrow> Inl (Error (''Invalid timezone: '' @ timezone)))))"

definition utcToZonedTime :: "tzdb \<Rightarrow> instant \<Rightarrow> timezone_value \<Rightarrow> instant option" where
  \<comment> \<open>date-fns-tz: a Date whose local fields read as the wall clock of the zone; the
      process being in UTC, its time value is the instant moved by the zone's offset.
      What names no zone (an inherited property, or a name the zone data does not
      hold) gives the Invalid Date\<close>
  "utcToZonedTime zones date timeZone =
     (case timeZone of
        InheritedProperty \<Rightarrow> None
      | ZoneName name \<Rightarrow>
          (case zones name of None \<Rightarrow> None | Some off \<Rightarrow> TimeClip (date + off date)))"

definition convertToUserTimezone :: "tzdb \<Rightarrow> instant option \<Rightarrow> string \<Rightarrow> error + instant option" where
  "convertToUserTimezone zones utcTime userTimezone =
     (case normalizeTimezone zones userTimezone of
        Inl (Error msg) \<Rightarrow> Inl (Error (''Timezone conversion failed: '' @ msg))
      | Inr normalizedTimezone \<Rightarrow>
          (case utcTime of
             None \<Rightarrow> Inl (Error ''Timezone conversion failed: Invalid date'')
           | Some date \<Rightarrow> Inr (utcToZonedTime zones date normalizedTimezone)))"

record workingHours =
  wh_start :: int
  wh_end :: int

definition isWithinWorkingHours :: "tzdb \<Rightarrow> instant option \<Rightarrow> string \<Rightarrow> workingHours \<Rightarrow> bool" where
  "isWithinWorkingHours zones dateTime timezone wh =
     (case convertToUserTimezone zones dateTime timezone of
        Inl e \<Rightarrow> False
      | Inr None \<Rightarrow> False
      | Inr (Some localTime) \<Rightarrow>
          (let hour = getHours localTime in hour \<ge> wh_start wh \<and> hour < wh_end wh))"

section \<open>The database\<close>

text \<open>
  One record per table of the migrations, with the columns the services read or write.
  The services store their timestamps as the text that \<open>toISOString\<close> gives, and the
  queries compare and order that text. A row holds the instant, and \<open>iso_key\<close> is a key
  whose order is the order of the text: a year from 0000 to 9999 is written with four
  digits, a later year as \<open>+YYYYYY\<close> and an earlier one as \<open>-YYYYYY\<close>, and \<open>+\<close> sorts
  before \<open>-\<close>, which sorts before the digits; among the texts of one of these three
  forms the later instant has the later text, except that the years before 0000 are
  ordered by their distance from it. A \<open>proposed_datetime\<close> that \<open>new Date\<close> cannot read
  is \<open>None\<close>. Primary keys are unique, so a lookup by id takes the first row found.
\<close>

definition iso_key :: "instant \<Rightarrow> int \<times> int \<times> int" where
  "iso_key t =
     (if YearFromTime t > 9999 then (0, 0, t)
      else if YearFromTime t < 0 then (1, - YearFromTime t, t)
      else (2, 0, t))"

definition text_le :: "instant \<Rightarrow> instant \<Rightarrow> bool" where
  \<comment> \<open>\<open>a <= b\<close> on the stored text\<close>
  "text_le a b = (iso_key a \<le> iso_key b)"

definition text_lt :: "instant \<Rightarrow> instant \<Rightarrow> bool" where
  \<comment> \<open>\<open>a < b\<close> on the stored text\<close>
  "text_lt a b = (iso_key a < iso_key b)"

definition four_digit_year :: "instant \<Rightarrow> bool" where
  \<comment> \<open>the text of the instant begins with the four digits of its year\<close>
  "four_digit_year t = (0 \<le> YearFromTime t \<and> YearFromTime t \<le> 9999)"

datatype sql_param = TextParam instant | NumberParam instant

definition column_le :: "instant \<Rightarrow> sql_param \<Rightarrow> bool" where
  \<comment> \<open>\<open>column <= ?\<close> for a timestamp column. A parameter is the text of an instant, or a
      Date object, which the driver binds as a number; SQLite orders every number
      before every text\<close>
  "column_le c p = (case p of TextParam t \<Rightarrow> text_le c t | NumberParam n \<Rightarrow> False)"

definition column_ge :: "instant \<Rightarrow> sql_param \<Rightarrow> bool" where
  \<comment> \<open>\<open>column >= ?\<close>\<close>
  "column_ge c p = (case p of TextParam t \<Rightarrow> text_le t c | NumberParam n \<Rightarrow> True)"

datatype preferences_json = NullColumn | JsonArray "string list" | JsonFalsy

definition parse_notification_preferences :: "preferences_json \<Rightarrow> string list option" where
  \<comment> \<open>\<open>JSON.parse(user.notification_preferences || '[]')\<close> in \<open>findById\<close>. The column is
      NULL (or empty), the JSON text of an array of tokens, or a JSON text whose value is
      falsy (\<open>null\<close>, \<open>false\<close>, \<open>0\<close>, \<open>""\<close>); \<open>None\<close> is a falsy value\<close>
  "parse_notification_preferences column =
     (case column of
        NullColumn \<Rightarrow> Some []
      | JsonArray tokens \<Rightarrow> Some tokens
      | JsonFalsy \<Rightarrow> None)"

record user_row =
  u_id :: string
  u_timezone :: string
  u_working_hours_start :: int
  u_working_hours_end :: int
  u_notification_preferences :: preferences_json

record meeting_row =
  m_id :: nat
  m_proposer_id :: string
  m_proposed_datetime :: "instant option"
  m_duration_minutes :: int
  m_status :: string

record response_row =
  r_meeting_id :: nat
  r_user_id :: string
  r_response :: string
  r_responded_at :: instant

record notification_row =
  n_id :: nat
  n_meeting_id :: nat
  n_user_id :: string
  n_notification_time :: instant
  n_notification_type :: string
  n_status :: string

record availability_row =
  a_id :: nat
  a_user_id :: string
  a_start_datetime :: instant
  a_end_datetime :: instant
  a_availability_type :: string
  a_reason :: "string option"
  a_is_recurring :: bool

record database =
  users :: "user_row list"
  meetings :: "meeting_row list"
  meeting_responses :: "response_row list"
  notifications :: "notification_row list"
  notifications_seq :: nat
  meetings_seq :: nat
  user_availability :: "availability_row list"
  user_availability_seq :: nat

definition autoincrement :: "nat \<Rightarrow> nat list \<Rightarrow> nat" where
  \<comment> \<open>AUTOINCREMENT: one more than the largest id the table has ever held\<close>
  "autoincrement seq ids = Suc (fold max ids seq)"

subsection \<open>UserRepository and MeetingRepository\<close>

definition UserRepository_findById :: "database \<Rightarrow> string option \<Rightarrow> user_row option" where
  \<comment> \<open>no row has a null id\<close>
  "UserRepository_findById db ident =
     (case ident of None \<Rightarrow> None | Some i \<Rightarrow> find (\<lambda>u. u_id u = i) (users db))"

definition MeetingRepository_findById :: "database \<Rightarrow> nat \<Rightarrow> meeting_row option" where
  "MeetingRepository_findById db ident = find (\<lambda>m. m_id m = ident) (meetings db)"

record participant =
  p_id :: "string option"
  p_timezone :: string
  p_response :: string
  p_responded_at :: instant

definition participant_of :: "database \<Rightarrow> response_row \<Rightarrow> participant" where
  \<comment> \<open>\<open>meeting_responses mr LEFT JOIN users u ON mr.user_id = u.id\<close>: the columns of
      \<open>u\<close> are null when no user has the id\<close>
  "participant_of db mr =
     (case find (\<lambda>u. u_id u = r_user_id mr) (users db) of
        None \<Rightarrow> \<lparr>p_id = None, p_timezone = [], p_response = r_response mr,
                   p_responded_at = r_responded_at mr\<rparr>
      | Some u \<Rightarrow> \<lparr>p_id = Some (u_id u), p_timezone = u_timezone u, p_response = r_response mr,
                    p_responded_at = r_responded_at mr\<rparr>)"

definition getParticipants :: "database \<Rightarrow> nat \<Rightarrow> participant list" where
  \<comment> \<open>\<open>SELECT DISTINCT ... WHERE mr.meeting_id = ? ORDER BY mr.responded_at ASC\<close>; a
      user has at most one response to a meeting (\<open>UNIQUE(meeting_id, user_id)\<close>), and
      \<open>responded_at\<close> is the database's own \<open>CURRENT_TIMESTAMP\<close>, with a four-digit year\<close>
  "getParticipants db meetingId =
     sort_key p_responded_at
       (remdups (map (participant_of db)
          (filter (\<lambda>mr. r_meeting_id mr = meetingId) (meeting_responses db))))"

section \<open>NotificationService: scheduling\<close>

definition calculateNotificationTime :: "instant option \<Rightarrow> string \<Rightarrow> instant option" where
  \<comment> \<open>the \<open>switch\<close> has no default: any other unit leaves the copy of the date as it is\<close>
  "calculateNotificationTime meetingTime reminderTime =
     (let timeUnit = slice_last reminderTime;
          timeValue = parseInt (slice_init reminderTime)
      in case meetingTime of
           None \<Rightarrow> None
         | Some notificationTime \<Rightarrow>
             if timeUnit = ''h'' then
               (case timeValue of None \<Rightarrow> None
                | Some v \<Rightarrow> setHours notificationTime (getHours notificationTime - v))
             else if timeUnit = ''m'' then
               (case timeValue of None \<Rightarrow> None
                | Some v \<Rightarrow> setMinutes notificationTime (getMinutes notificationTime - v))
             else if timeUnit = ''d'' then
               (case timeValue of None \<Rightarrow> None
                | Some v \<Rightarrow> setDate notificationTime (getDate notificationTime - v))
             else Some notificationTime)"

definition createNotificationRecord ::
  "nat \<Rightarrow> string \<Rightarrow> instant \<Rightarrow> string \<Rightarrow> database \<Rightarrow> database" where
  \<comment> \<open>the INSERT names four columns; \<open>status\<close> takes its default, \<open>pending\<close>\<close>
  "createNotificationRecord meetingId userId notificationTime notificationType db =
     (let new_id = autoincrement (notifications_seq db) (map n_id (notifications db)) in
      db\<lparr>notifications := notifications db @
            [\<lparr>n_id = new_id, n_meeting_id = meetingId, n_user_id = userId,
              n_notification_time = notificationTime, n_notification_type = notificationType,
              n_status = ''pending''\<rparr>],
         notifications_seq := new_id\<rparr>)"

definition DEFAULT_REMINDERS :: "string list" where
  "DEFAULT_REMINDERS = [''24h'', ''1h'', ''15m'']"

fun reminder_loop ::
  "instant \<Rightarrow> nat \<Rightarrow> string \<Rightarrow> instant option \<Rightarrow> string list \<Rightarrow> database \<Rightarrow> database" where
  \<comment> \<open>\<open>for (const reminderTime of reminderTimes)\<close>; the clock is read once, as \<open>now\<close>.
      \<open>notificationTime > new Date()\<close> compares time values and is false on NaN\<close>
  "reminder_loop now meetingId userId userMeetingTime [] db = db"
| "reminder_loop now meetingId userId userMeetingTime (reminderTime # rest) db =
     reminder_loop now meetingId userId userMeetingTime rest
       (case calculateNotificationTime userMeetingTime reminderTime of
          None \<Rightarrow> db
        | Some notificationTime \<Rightarrow>
            if notificationTime > now
            then createNotificationRecord meetingId userId notificationTime reminderTime db
            else db)"

definition scheduleUserNotifications ::
  "tzdb \<Rightarrow> instant \<Rightarrow> meeting_row \<Rightarrow> participant \<Rightarrow> database \<Rightarrow> error + database" where
  \<comment> \<open>\<open>user.notification_preferences || ['24h', '1h', '15m']\<close> on the user that
      \<open>findById\<close> returns, whose preferences are parsed\<close>
  "scheduleUserNotifications zones now meeting p db =
     (case UserRepository_findById db (p_id p) of
        None \<Rightarrow> Inr db
      | Some user \<Rightarrow>
          (case convertToUserTimezone zones (m_proposed_datetime meeting) (u_timezone user) of
             Inl e \<Rightarrow> Inl e
           | Inr userMeetingTime \<Rightarrow>
               Inr (reminder_loop now (m_id meeting) (u_id user) userMeetingTime
                      (case parse_notification_preferences (u_notification_preferences user)
                       of None \<Rightarrow> DEFAULT_REMINDERS | Some prefs \<Rightarrow> prefs)
                      db)))"

fun participants_loop ::
  "tzdb \<Rightarrow> instant \<Rightarrow> meeting_row \<Rightarrow> participant list \<Rightarrow> database \<Rightarrow> database" where
  \<comment> \<open>\<open>for (const participant of interestedUsers)\<close> inside the \<open>try\<close>: an exception ends
      the loop and is logged; what was inserted before it stays\<close>
  "participants_loop zones now meeting [] db = db"
| "participants_loop zones now meeting (p # ps) db =
     (case scheduleUserNotifications zones now meeting p db of
        Inl e \<Rightarrow> db
      | Inr db' \<Rightarrow> participants_loop zones now meeting ps db')"

definition interested :: "participant \<Rightarrow> bool" where
  "interested p = (p_response p = ''available'' \<or> p_response p = ''maybe'')"

definition scheduleNotifications :: "tzdb \<Rightarrow> instant \<Rightarrow> meeting_row \<Rightarrow> database \<Rightarrow> database" where
  "scheduleNotifications zones now meeting db =
     (let participants = getParticipants db (m_id meeting);
          interestedUsers = filter interested participants
      in if length interestedUsers = 0 then db
         else participants_loop zones now meeting interestedUsers db)"

definition rescheduleNotifications ::
  "tzdb \<Rightarrow> instant \<Rightarrow> nat \<Rightarrow> instant option \<Rightarrow> database \<Rightarrow> database" where
  \<comment> \<open>\<open>DELETE FROM notifications WHERE meeting_id = ? AND status = 'pending'\<close>, then the
      meeting is read and scheduled again with the new time\<close>
  "rescheduleNotifications zones now meetingId newDateTime db =
     (let db1 = db\<lparr>notifications :=
                  filter (\<lambda>n. \<not> (n_meeting_id n = meetingId \<and> n_status n = ''pending''))
                    (notifications db)\<rparr>
      in case MeetingRepository_findById db1 meetingId of
           None \<Rightarrow> db1
         | Some meeting \<Rightarrow>
             scheduleNotifications zones now (meeting\<lparr>m_proposed_datetime := newDateTime\<rparr>) db1)"

definition cancelNotifications :: "nat \<Rightarrow> database \<Rightarrow> database" where
  \<comment> \<open>\<open>UPDATE notifications SET status = 'cancelled' WHERE meeting_id = ? AND status = 'pending'\<close>\<close>
  "cancelNotifications meetingId db =
     db\<lparr>notifications :=
          map (\<lambda>n. if n_meeting_id n = meetingId \<and> n_status n = ''pending''
                    then n\<lparr>n_status := ''cancelled''\<rparr> else n)
            (notifications db)\<rparr>"

section \<open>NotificationService: the dispatcher\<close>

text \<open>
  The sweep reads \<open>SELECT n.*, m.*, u.username, u.display_name, u.timezone FROM
  notifications n JOIN meetings m ... JOIN users u ...\<close>. The driver (node-sqlite3)
  returns each row as one object keyed by column name, and a column name that comes
  again replaces the value before it: \<open>id\<close> and \<open>status\<close> of the object are those of the
  \<open>meetings\<close> row. \<open>notification.id\<close>, which \<open>sendNotification\<close> passes to
  \<open>markNotificationSent\<close>, is therefore the id of the meeting.
\<close>

record due_notification =
  d_id :: nat
  d_meeting_id :: nat
  d_user_id :: string
  d_notification_time :: instant
  d_notification_type :: string
  d_status :: string

definition join_row :: "database \<Rightarrow> notification_row \<Rightarrow> due_notification option" where
  "join_row db n =
     (case MeetingRepository_findById db (n_meeting_id n) of
        None \<Rightarrow> None
      | Some m \<Rightarrow>
          (case UserRepository_findById db (Some (n_user_id n)) of
             None \<Rightarrow> None
           | Some u \<Rightarrow>
               Some \<lparr>d_id = m_id m, d_meeting_id = n_meeting_id n, d_user_id = n_user_id n,
                     d_notification_time = n_notification_time n,
                     d_notification_type = n_notification_type n,
                     d_status = m_status m\<rparr>))"

definition pendingNotifications :: "instant \<Rightarrow> database \<Rightarrow> due_notification list" where
  \<comment> \<open>\<open>WHERE n.status = 'pending' AND n.notification_time <= ? ORDER BY
      n.notification_time ASC LIMIT 50\<close>, the parameter being \<open>now.toISOString()\<close>\<close>
  "pendingNotifications now db =
     take 50 (sort_key (\<lambda>d. iso_key (d_notification_time d))
       (List.map_filter (join_row db)
          (filter (\<lambda>n. n_status n = ''pending'' \<and> text_le (n_notification_time n) now)
             (notifications db))))"

datatype delivery = NoUser | Delivered | Failed

definition markNotificationSent :: "nat \<Rightarrow> string \<Rightarrow> database \<Rightarrow> database" where
  \<comment> \<open>\<open>UPDATE notifications SET status = ?, sent_at = CURRENT_TIMESTAMP WHERE id = ?\<close>\<close>
  "markNotificationSent notificationId status db =
     db\<lparr>notifications :=
          map (\<lambda>n. if n_id n = notificationId then n\<lparr>n_status := status\<rparr> else n)
            (notifications db)\<rparr>"

definition sendNotification ::
  "(due_notification \<Rightarrow> delivery) \<Rightarrow> due_notification \<Rightarrow> database \<Rightarrow> database" where
  \<comment> \<open>the channel says what \<open>client.users.fetch\<close> and \<open>user.send\<close> do for the row: no
      user, delivered, or an exception\<close>
  "sendNotification channel notification db =
     (case channel notification of
        NoUser \<Rightarrow> markNotificationSent (d_id notification) ''user_not_found'' db
      | Delivered \<Rightarrow> markNotificationSent (d_id notification) ''sent'' db
      | Failed \<Rightarrow> markNotificationSent (d_id notification) ''failed'' db)"

definition processScheduledNotifications ::
  "(due_notification \<Rightarrow> delivery) \<Rightarrow> instant \<Rightarrow> database \<Rightarrow> database" where
  "processScheduledNotifications channel now db =
     fold (sendNotification channel) (pendingNotifications now db) db"

section \<open>AvailabilityRepository and the set-busy command\<close>

definition findConflicts ::
  "database \<Rightarrow> string \<Rightarrow> instant \<Rightarrow> instant \<Rightarrow> nat option \<Rightarrow> availability_row list" where
  \<comment> \<open>the two parameters are texts (the command passes \<open>toISOString()\<close>), and the
      comparisons and \<open>ORDER BY ua.start_datetime ASC\<close> are on text. \<open>if (excludeId)\<close>:
      null and 0 add no condition\<close>
  "findConflicts db userId startDateTime endDateTime excludeId =
     sort_key (\<lambda>ua. iso_key (a_start_datetime ua))
       (filter
          (\<lambda>ua. a_user_id ua = userId
              \<and> a_availability_type ua = ''busy''
              \<and> ((text_le (a_start_datetime ua) startDateTime
                    \<and> text_lt startDateTime (a_end_datetime ua))
                 \<or> (text_lt (a_start_datetime ua) endDateTime
                    \<and> text_le endDateTime (a_end_datetime ua))
                 \<or> (text_le startDateTime (a_start_datetime ua)
                    \<and> text_le (a_end_datetime ua) endDateTime))
              \<and> (case excludeId of
                    None \<Rightarrow> True
                  | Some x \<Rightarrow> (if x = 0 then True else a_id ua \<noteq> x)))
          (user_availability db))"

definition AvailabilityRepository_create ::
  "string \<Rightarrow> instant \<Rightarrow> instant \<Rightarrow> string \<Rightarrow> string option \<Rightarrow> bool \<Rightarrow> database
     \<Rightarrow> availability_row \<times> database" where
  \<comment> \<open>the INSERT, then \<open>findById\<close> of the new id\<close>
  "AvailabilityRepository_create userId startDateTime endDateTime availability_type reason
      is_recurring db =
     (let new_id = autoincrement (user_availability_seq db) (map a_id (user_availability db));
          row = \<lparr>a_id = new_id, a_user_id = userId, a_start_datetime = startDateTime,
                 a_end_datetime = endDateTime, a_availability_type = availability_type,
                 a_reason = reason, a_is_recurring = is_recurring\<rparr>
      in (row, db\<lparr>user_availability := user_availability db @ [row],
                   user_availability_seq := new_id\<rparr>))"

definition setBusyPeriod ::
  "string \<Rightarrow> instant \<Rightarrow> instant \<Rightarrow> string option \<Rightarrow> database \<Rightarrow> availability_row \<times> database" where
  "setBusyPeriod userId startDateTime endDateTime reason db =
     AvailabilityRepository_create userId startDateTime endDateTime ''busy'' reason False db"

text \<open>
  The command reads its options as text. \<open>validateAvailabilityInput\<close> first checks the
  shape of each field; with no error so far it parses start and end with
  \<open>parseUserDateTime\<close>, which may throw, and checks the two instants. The input here
  carries the messages of the field checks and what \<open>parseUserDateTime\<close> gives for
  start and end (\<open>Inl\<close> the message of the exception); the checks on the instants are
  the code's.
\<close>

record availability_input =
  in_field_errors :: "string list"
  in_parsed_start :: "string + instant"
  in_parsed_end :: "string + instant"
  in_reason :: "string option"

definition validateAvailabilityInput ::
  "availability_input \<Rightarrow> string list + instant \<times> instant" where
  \<comment> \<open>the error messages when \<open>isValid\<close> is false, and otherwise \<open>parsed_start.utcTime\<close>
      and \<open>parsed_end.utcTime\<close> of the sanitized input\<close>
  "validateAvailabilityInput input =
     (if in_field_errors input \<noteq> [] then Inl (in_field_errors input)
      else
        case in_parsed_start input of
          Inl msg \<Rightarrow> Inl [msg]
        | Inr startUtc \<Rightarrow>
            (case in_parsed_end input of
               Inl msg \<Rightarrow> Inl [msg]
             | Inr endUtc \<Rightarrow>
                 (let errors =
                        (if startUtc < endUtc then []
                         else [''End time must be after start time''])
                        @ (if endUtc - startUtc > 7 * 24 * 60 * 60 * 1000
                           then [''Availability period cannot be longer than 7 days'']
                           else [])
                  in if errors = [] then Inr (startUtc, endUtc) else Inl errors)))"

definition ensureUserExists :: "string \<Rightarrow> database \<Rightarrow> database" where
  "ensureUserExists userId db =
     (case UserRepository_findById db (Some userId) of
        Some existingUser \<Rightarrow> db
      | None \<Rightarrow>
          db\<lparr>users := users db @
               [\<lparr>u_id = userId, u_timezone = ''UTC'', u_working_hours_start = 9,
                 u_working_hours_end = 17,
                 u_notification_preferences = JsonArray DEFAULT_REMINDERS\<rparr>]\<rparr>)"

datatype reply =
    ValidationErrorReply "string list"
  | SchedulingConflictReply "availability_row list"
  | BusyPeriodSetReply availability_row

definition SetBusyCommand_execute ::
  "string \<Rightarrow> availability_input \<Rightarrow> database \<Rightarrow> reply \<times> database" where
  \<comment> \<open>the reply and the database after the command; the points that \<open>addPoints\<close> gives
      the user afterwards are a column this model does not hold\<close>
  "SetBusyCommand_execute userId input db0 =
     (let db = ensureUserExists userId db0 in
      case validateAvailabilityInput input of
        Inl errors \<Rightarrow> (ValidationErrorReply errors, db)
      | Inr (startUtc, endUtc) \<Rightarrow>
          (let conflicts = findConflicts db userId startUtc endUtc None in
           if length conflicts > 0 then (SchedulingConflictReply conflicts, db)
           else
             (let (busyPeriod, db') = setBusyPeriod userId startUtc endUtc (in_reason input) db
              in (BusyPeriodSetReply busyPeriod, db'))))"

section \<open>MeetingService.findOptimalMeetingTime\<close>

record availabilityData =
  busyPeriods :: "string \<rightharpoonup> (instant \<times> instant) list"
  userTimezones :: "string \<rightharpoonup> string"
  workingHoursOf :: "string \<rightharpoonup> workingHours"

definition getTeamAvailability ::
  "database \<Rightarrow> string list \<Rightarrow> sql_param \<Rightarrow> sql_param \<Rightarrow> availability_row list" where
  \<comment> \<open>\<open>WHERE ua.user_id IN (...) AND ua.start_datetime <= ? AND ua.end_datetime >= ?
      ORDER BY ua.user_id, ua.start_datetime ASC\<close>, with \<open>endDate\<close> and \<open>startDate\<close> for the
      two parameters\<close>
  "getTeamAvailability db userIds startDate endDate =
     sort_key (\<lambda>ua. (a_user_id ua, iso_key (a_start_datetime ua)))
       (filter (\<lambda>ua. a_user_id ua \<in> set userIds
                    \<and> column_le (a_start_datetime ua) endDate
                    \<and> column_ge (a_end_datetime ua) startDate)
          (user_availability db))"

definition findOptimalMeetingTimes ::
  "database \<Rightarrow> string list \<Rightarrow> int \<Rightarrow> sql_param \<Rightarrow> sql_param \<Rightarrow> bool \<Rightarrow> availabilityData" where
  \<comment> \<open>\<open>duration\<close> and \<open>workingHoursOnly\<close> are parameters the body never reads\<close>
  "findOptimalMeetingTimes db userIds duration startDate endDate workingHoursOnly =
     (let teamAvailability = getTeamAvailability db userIds startDate endDate;
          userDetails = filter (\<lambda>u. u_id u \<in> set userIds) (users db)
      in \<lparr>busyPeriods =
             fold (\<lambda>period acc.
                     acc(a_user_id period \<mapsto>
                           (case acc (a_user_id period) of None \<Rightarrow> [] | Some ps \<Rightarrow> ps)
                           @ [(a_start_datetime period, a_end_datetime period)]))
               (filter (\<lambda>period. a_availability_type period = ''busy'') teamAvailability)
               Map.empty,
           userTimezones =
             fold (\<lambda>user acc. acc(u_id user \<mapsto> u_timezone user)) userDetails Map.empty,
           workingHoursOf =
             fold (\<lambda>user acc. acc(u_id user \<mapsto>
                     \<lparr>wh_start = u_working_hours_start user,
                      wh_end = u_working_hours_end user\<rparr>)) userDetails Map.empty\<rparr>)"

record preferences =
  pref_startDate :: "instant option"
  pref_endDate :: "instant option"
  pref_workingHoursOnly :: "bool option"

record suggestion =
  s_time :: instant
  s_availableUsers :: nat
  s_totalUsers :: nat
  s_score :: rat

definition date_gt :: "instant option \<Rightarrow> instant \<Rightarrow> bool" where
  \<comment> \<open>\<open>a > b\<close> on Dates compares time values; with NaN it is false\<close>
  "date_gt a b = (case a of None \<Rightarrow> False | Some t \<Rightarrow> t > b)"

definition userIsAvailable ::
  "tzdb \<Rightarrow> availabilityData \<Rightarrow> instant \<Rightarrow> instant option \<Rightarrow> string \<Rightarrow> bool" where
  \<comment> \<open>the body of \<open>for (const userId of userIds)\<close>: \<open>isInWorkingHours && !hasConflict\<close>\<close>
  "userIsAvailable zones availabilityData meetingTime endTime userId =
     (let userBusyPeriods =
            (case busyPeriods availabilityData userId of None \<Rightarrow> [] | Some ps \<Rightarrow> ps);
          userTimezone =
            (case userTimezones availabilityData userId of
               None \<Rightarrow> ''UTC'' | Some tz \<Rightarrow> (if tz = [] then ''UTC'' else tz));
          userWorkingHours =
            (case workingHoursOf availabilityData userId of
               None \<Rightarrow> \<lparr>wh_start = 9, wh_end = 17\<rparr> | Some wh \<Rightarrow> wh);
          isInWorkingHours =
            isWithinWorkingHours zones (Some meetingTime) userTimezone userWorkingHours;
          hasConflict =
            list_ex (\<lambda>(period_start, period_end).
                        meetingTime < period_end \<and> date_gt endTime period_start)
              userBusyPeriods
      in isInWorkingHours \<and> \<not> hasConflict)"

definition hourSuggestion ::
  "tzdb \<Rightarrow> availabilityData \<Rightarrow> string list \<Rightarrow> int \<Rightarrow> instant \<Rightarrow> int \<Rightarrow> suggestion list" where
  \<comment> \<open>the body of \<open>for (let hour = 9; hour <= 17; hour++)\<close>; with an invalid
      \<open>meetingTime\<close> the working-hours check fails for every user and nothing is pushed\<close>
  "hourSuggestion zones availabilityData userIds duration current hour =
     (case setHours4 current hour 0 0 0 of
        None \<Rightarrow> []
      | Some meetingTime \<Rightarrow>
          (let endTime = TimeClip (meetingTime + duration * 60 * 1000);
               availableUsers =
                 length (filter (userIsAvailable zones availabilityData meetingTime endTime)
                           userIds)
           in if availableUsers > 0
              then [\<lparr>s_time = meetingTime, s_availableUsers = availableUsers,
                     s_totalUsers = length userIds,
                     s_score = of_nat availableUsers / of_nat (length userIds)\<rparr>]
              else []))"

function daysLoop ::
  "tzdb \<Rightarrow> availabilityData \<Rightarrow> string list \<Rightarrow> int \<Rightarrow> instant \<Rightarrow> instant \<Rightarrow> suggestion list" where
  \<comment> \<open>\<open>while (current < endDate)\<close>; Monday to Friday are the days 1 to 5\<close>
  "daysLoop zones availabilityData userIds duration endDate current =
     (if current < endDate then
        (if getDay current \<ge> 1 \<and> getDay current \<le> 5
         then concat (map (hourSuggestion zones availabilityData userIds duration current)
                        [9..17])
         else [])
        @ (case setDate current (getDate current + 1) of
             None \<Rightarrow> []
           | Some next \<Rightarrow> daysLoop zones availabilityData userIds duration endDate next)
      else [])"
  by pat_completeness auto
termination
proof (relation "measure (\<lambda>(zones, availabilityData, userIds, duration, endDate, current).
                            nat (endDate - current))")
  show "wf (measure (\<lambda>(zones, availabilityData, userIds, duration, endDate, current).
                            nat (endDate - current)))"
    by simp
next
  fix zones :: tzdb and availabilityData :: availabilityData and userIds :: "string list"
    and duration endDate current x2 :: int
  assume lt: "current < endDate"
    and nx: "setDate current (getDate current + 1) = Some x2"
  have "MakeDate (Day current - DateFromTime current + (DateFromTime current + 1))
          (TimeWithinDay current)
        = (current div msPerDay * msPerDay + current mod msPerDay) + msPerDay"
    unfolding MakeDate_def Day_def TimeWithinDay_def by (simp add: algebra_simps)
  then have "x2 = current + msPerDay"
    using nx unfolding setDate_def getDate_def TimeClip_def by (simp split: if_splits)
  then show "((zones, availabilityData, userIds, duration, endDate, x2),
              (zones, availabilityData, userIds, duration, endDate, current))
             \<in> measure (\<lambda>(zones, availabilityData, userIds, duration, endDate, current).
                            nat (endDate - current))"
    using lt by (simp add: msPerDay_def)
qed

definition findOptimalMeetingTime ::
  "tzdb \<Rightarrow> instant \<Rightarrow> database \<Rightarrow> string list \<Rightarrow> int \<Rightarrow> preferences \<Rightarrow> suggestion list" where
  \<comment> \<open>\<open>now\<close> is the clock; \<open>preferences.workingHoursOnly !== false\<close> goes to the repository
      and nowhere else. \<open>startDate\<close> and \<open>endDate\<close> are Date objects and go to the
      repository's query as they are. The sort is stable and its comparator orders by
      score, then by the number of available users, both descending\<close>
  "findOptimalMeetingTime zones now db userIds duration prefs =
     (let startDate = (case pref_startDate prefs of None \<Rightarrow> now | Some d \<Rightarrow> d);
          endDate = (case pref_endDate prefs of
                       None \<Rightarrow> now + 7 * 24 * 60 * 60 * 1000 | Some d \<Rightarrow> d);
          availabilityData =
            findOptimalMeetingTimes db userIds duration (NumberParam startDate)
              (NumberParam endDate) (pref_workingHoursOnly prefs \<noteq> Some False);
          suggestions = daysLoop zones availabilityData userIds duration endDate startDate
      in take 10
           (sort_key (\<lambda>s. (- s_score s, - int (s_availableUsers s))) suggestions))"

section \<open>The schedule-recurring command\<close>

text \<open>
  \<open>validateRecurringInput\<close> refuses a pattern that is not a key of
  \<open>RECURRING_PATTERNS\<close>, so the sanitized input holds one of the four keys. Each
  occurrence is stored as a meeting; the rows of \<open>recurring_meetings\<close> that
  \<open>createRecurrenceRecord\<close> writes beside it are not part of this model.
\<close>

datatype pattern_name = daily | weekly | biweekly | monthly

record recurring_pattern =
  rp_interval :: int
  rp_type :: string

fun RECURRING_PATTERNS :: "pattern_name \<Rightarrow> recurring_pattern" where
  "RECURRING_PATTERNS daily = \<lparr>rp_interval = 1, rp_type = ''days''\<rparr>"
| "RECURRING_PATTERNS weekly = \<lparr>rp_interval = 7, rp_type = ''days''\<rparr>"
| "RECURRING_PATTERNS biweekly = \<lparr>rp_interval = 14, rp_type = ''days''\<rparr>"
| "RECURRING_PATTERNS monthly = \<lparr>rp_interval = 1, rp_type = ''months''\<rparr>"

definition calculateNextOccurrence :: "instant \<Rightarrow> recurring_pattern \<Rightarrow> instant option" where
  "calculateNextOccurrence currentDate pattern =
     (if rp_type pattern = ''days'' then
        setDate currentDate (getDate currentDate + rp_interval pattern)
      else if rp_type pattern = ''weeks'' then
        setDate currentDate (getDate currentDate + rp_interval pattern * 7)
      else if rp_type pattern = ''months'' then
        setMonth currentDate (getMonth currentDate + rp_interval pattern)
      else Some currentDate)"

record recurring_input =
  ri_proposer_id :: string
  ri_pattern :: pattern_name
  ri_parsed_datetime :: instant
  ri_parsed_end_date :: "instant option"
  ri_max_occurrences :: "nat option"
  ri_duration :: "int option"

definition MeetingRepository_create ::
  "string \<Rightarrow> instant \<Rightarrow> int \<Rightarrow> database \<Rightarrow> meeting_row \<times> database" where
  "MeetingRepository_create proposer_id proposed_datetime duration_minutes db =
     (let new_id = autoincrement (meetings_seq db) (map m_id (meetings db));
          row = \<lparr>m_id = new_id, m_proposer_id = proposer_id,
                 m_proposed_datetime = Some proposed_datetime,
                 m_duration_minutes = duration_minutes, m_status = ''proposed''\<rparr>
      in (row, db\<lparr>meetings := meetings db @ [row], meetings_seq := new_id\<rparr>))"

definition date_le :: "instant option \<Rightarrow> instant option \<Rightarrow> bool" where
  \<comment> \<open>\<open>a <= b\<close> on Dates compares time values; with NaN it is false\<close>
  "date_le a b =
     (case a of None \<Rightarrow> False | Some s \<Rightarrow> (case b of None \<Rightarrow> False | Some t \<Rightarrow> s \<le> t))"

function occurrencesLoop ::
  "recurring_input \<Rightarrow> recurring_pattern \<Rightarrow> instant option \<Rightarrow> nat \<Rightarrow> instant option \<Rightarrow> nat
     \<Rightarrow> database \<Rightarrow> meeting_row list \<times> database" where
  \<comment> \<open>\<open>while (currentDate <= endDate && occurrenceCount < maxOccurrences)\<close>\<close>
  "occurrencesLoop input pattern endDate maxOccurrences currentDate occurrenceCount db =
     (case currentDate of
        None \<Rightarrow> ([], db)
      | Some cur \<Rightarrow>
          if date_le (Some cur) endDate \<and> occurrenceCount < maxOccurrences then
            (let (meeting, db1) =
                   MeetingRepository_create (ri_proposer_id input) cur
                     (case ri_duration input of None \<Rightarrow> 60
                      | Some d \<Rightarrow> (if d = 0 then 60 else d)) db;
                 (rest, db2) =
                   occurrencesLoop input pattern endDate maxOccurrences
                     (calculateNextOccurrence cur pattern) (Suc occurrenceCount) db1
             in (meeting # rest, db2))
          else ([], db))"
  by pat_completeness auto
termination
  by (relation "measure (\<lambda>(input, pattern, endDate, maxOccurrences, currentDate,
                            occurrenceCount, db). maxOccurrences - occurrenceCount)") auto

definition createRecurringMeetings ::
  "recurring_input \<Rightarrow> database \<Rightarrow> meeting_row list \<times> database" where
  "createRecurringMeetings sanitizedInput db =
     (let pattern = RECURRING_PATTERNS (ri_pattern sanitizedInput);
          startDate = ri_parsed_datetime sanitizedInput;
          maxOccurrences = (case ri_max_occurrences sanitizedInput of
                              None \<Rightarrow> 10 | Some n \<Rightarrow> (if n = 0 then 10 else n));
          endDate = (case ri_parsed_end_date sanitizedInput of
                       Some e \<Rightarrow> Some e
                     | None \<Rightarrow> TimeClip (startDate + 365 * 24 * 60 * 60 * 1000))
      in occurrencesLoop sanitizedInput pattern endDate maxOccurrences (Some startDate) 0 db)"

section \<open>Data for the examples\<close>

definition example_zones :: tzdb where
  \<comment> \<open>three zones at their offsets of June 2024\<close>
  "example_zones name =
     (if name = ''UTC'' then Some (\<lambda>t. 0)
      else if name = ''America/Los_Angeles'' then Some (\<lambda>t. - 7 * 3600000)
      else if name = ''Asia/Tokyo'' then Some (\<lambda>t. 9 * 3600000)
      else None)"

definition empty_database :: database where
  "empty_database =
     \<lparr>users = [], meetings = [], meeting_responses = [], notifications = [],
      notifications_seq = 0, meetings_seq = 0, user_availability = [],
      user_availability_seq = 0\<rparr>"

definition example_user :: "string \<Rightarrow> string \<Rightarrow> int \<Rightarrow> int \<Rightarrow> string list \<Rightarrow> user_row" where
  "example_user ident zone wstart wend prefs =
     \<lparr>u_id = ident, u_timezone = zone, u_working_hours_start = wstart,
      u_working_hours_end = wend, u_notification_preferences = JsonArray prefs\<rparr>"

definition example_meeting :: "nat \<Rightarrow> instant \<Rightarrow> meeting_row" where
  "example_meeting ident start =
     \<lparr>m_id = ident, m_proposer_id = ''proposer'', m_proposed_datetime = Some start,
      m_duration_minutes = 60, m_status = ''proposed''\<rparr>"

definition example_job :: "nat \<Rightarrow> nat \<Rightarrow> string \<Rightarrow> instant \<Rightarrow> string \<Rightarrow> notification_row" where
  "example_job ident meetingId userId fireAt status =
     \<lparr>n_id = ident, n_meeting_id = meetingId, n_user_id = userId,
      n_notification_time = fireAt, n_notification_type = ''1h'', n_status = status\<rparr>"

definition meeting_database :: "string \<Rightarrow> string list \<Rightarrow> database" where
  \<comment> \<open>meeting 1 at 2024-06-01T12:00Z, and one user, in the given zone and with the given
      reminder offsets, who answered \<open>available\<close>\<close>
  "meeting_database zone prefs =
     empty_database
       \<lparr>users := [example_user ''u1'' zone 9 17 prefs],
        meetings := [example_meeting 1 (Date_UTC 2024 5 1 12 0)],
        meeting_responses :=
          [\<lparr>r_meeting_id = 1, r_user_id = ''u1'', r_response = ''available'',
            r_responded_at = Date_UTC 2024 4 30 8 0\<rparr>]\<rparr>"

definition busy_database :: database where
  \<comment> \<open>one busy interval of \<open>u1\<close>: 2024-06-03, 10:00 to 11:00\<close>
  "busy_database =
     empty_database
       \<lparr>user_availability :=
          [\<lparr>a_id = 1, a_user_id = ''u1'', a_start_datetime = Date_UTC 2024 5 3 10 0,
            a_end_datetime = Date_UTC 2024 5 3 11 0, a_availability_type = ''busy'',
            a_reason = None, a_is_recurring = False\<rparr>],
        user_availability_seq := 1\<rparr>"

definition inverted_database :: database where
  \<comment> \<open>one busy interval of \<open>u1\<close> whose end is before its start: 2024-06-03, 11:00 to 10:00\<close>
  "inverted_database =
     empty_database
       \<lparr>user_availability :=
          [\<lparr>a_id = 1, a_user_id = ''u1'', a_start_datetime = Date_UTC 2024 5 3 11 0,
            a_end_datetime = Date_UTC 2024 5 3 10 0, a_availability_type = ''busy'',
            a_reason = None, a_is_recurring = False\<rparr>],
        user_availability_seq := 1\<rparr>"

definition year_10000_database :: database where
  \<comment> \<open>one busy interval of \<open>u1\<close>: 9999-12-31T23:00Z to 10000-01-01T01:00Z\<close>
  "year_10000_database =
     empty_database
       \<lparr>user_availability :=
          [\<lparr>a_id = 1, a_user_id = ''u1'', a_start_datetime = Date_UTC 9999 11 31 23 0,
            a_end_datetime = Date_UTC 10000 0 1 1 0, a_availability_type = ''busy'',
            a_reason = None, a_is_recurring = False\<rparr>],
        user_availability_seq := 1\<rparr>"

definition dispatch_database :: database where
  \<comment> \<open>job 1 of meeting 1, pending, to fire at 2024-06-01T11:00Z\<close>
  "dispatch_database =
     (meeting_database ''UTC'' [''1h''])
       \<lparr>notifications := [example_job 1 1 ''u1'' (Date_UTC 2024 5 1 11 0) ''pending''],
        notifications_seq := 1\<rparr>"

definition orphan_database :: database where
  \<comment> \<open>job 1 belongs to meeting 7; no job has the id 7\<close>
  "orphan_database =
     empty_database
       \<lparr>users := [example_user ''u1'' ''UTC'' 9 17 [''1h'']],
        meetings := [example_meeting 7 (Date_UTC 2024 5 1 12 0)],
        meetings_seq := 7,
        notifications := [example_job 1 7 ''u1'' (Date_UTC 2024 5 1 11 0) ''pending''],
        notifications_seq := 1\<rparr>"

definition crossed_database :: database where
  \<comment> \<open>job 1 belongs to meeting 2 and was sent; job 2 belongs to meeting 1 and is pending\<close>
  "crossed_database =
     empty_database
       \<lparr>users := [example_user ''u1'' ''UTC'' 9 17 [''1h'']],
        meetings := [example_meeting 1 (Date_UTC 2024 5 1 12 0),
                     example_meeting 2 (Date_UTC 2024 4 1 12 0)],
        meetings_seq := 2,
        notifications := [example_job 1 2 ''u1'' (Date_UTC 2024 4 1 11 0) ''sent'',
                          example_job 2 1 ''u1'' (Date_UTC 2024 5 1 11 0) ''pending''],
        notifications_seq := 2\<rparr>"

definition two_user_database :: database where
  \<comment> \<open>meeting 1 with \<open>u1\<close>, who answered \<open>available\<close>, and \<open>u2\<close>, who answered
      \<open>unavailable\<close>; \<open>u3\<close> has not answered\<close>
  "two_user_database =
     empty_database
       \<lparr>users := [example_user ''u1'' ''UTC'' 9 17 [''24h'', ''1h''],
                  example_user ''u2'' ''UTC'' 9 17 [''24h'', ''1h''],
                  example_user ''u3'' ''UTC'' 9 17 [''24h'', ''1h'']],
        meetings := [example_meeting 1 (Date_UTC 2024 5 1 12 0)],
        meeting_responses :=
          [\<lparr>r_meeting_id = 1, r_user_id = ''u1'', r_response = ''available'',
            r_responded_at = Date_UTC 2024 4 30 8 0\<rparr>,
           \<lparr>r_meeting_id = 1, r_user_id = ''u2'', r_response = ''unavailable'',
            r_responded_at = Date_UTC 2024 4 30 9 0\<rparr>]\<rparr>"

section \<open>The specification's side\<close>

text \<open>
  The half-open overlap test in the specification's words, \<open>existing.start <
  candidate.end && candidate.start < existing.end\<close>, and the conflicts it selects.
\<close>

definition overlaps_half_open :: "instant \<Rightarrow> instant \<Rightarrow> instant \<Rightarrow> instant \<Rightarrow> bool" where
  "overlaps_half_open existing_start existing_end candidate_start candidate_end =
     (existing_start < candidate_end \<and> candidate_start < existing_end)"

definition proper_interval :: "instant \<Rightarrow> instant \<Rightarrow> bool" where
  \<comment> \<open>an interval or a window \<open>[start, end)\<close> that is not empty and lies in the years
      0000 to 9999\<close>
  "proper_interval start_time end_time =
     (start_time < end_time \<and> four_digit_year start_time \<and> four_digit_year end_time)"

definition not_excluded :: "nat option \<Rightarrow> availability_row \<Rightarrow> bool" where
  "not_excluded excludeId ua =
     (case excludeId of None \<Rightarrow> True | Some x \<Rightarrow> (if x = 0 then True else a_id ua \<noteq> x))"

definition spec_findConflicts ::
  "database \<Rightarrow> string \<Rightarrow> instant \<Rightarrow> instant \<Rightarrow> nat option \<Rightarrow> availability_row list" where
  "spec_findConflicts db userId startUtc endUtc excludeId =
     sort_key a_start_datetime
       (filter (\<lambda>ua. a_user_id ua = userId \<and> a_availability_type ua = ''busy''
                  \<and> overlaps_half_open (a_start_datetime ua) (a_end_datetime ua) startUtc endUtc
                  \<and> not_excluded excludeId ua)
          (user_availability db))"

text \<open>
  A participant is interested in a meeting when a recorded response of theirs to it is
  \<open>available\<close> or \<open>maybe\<close>.
\<close>

definition responded_interested :: "database \<Rightarrow> nat \<Rightarrow> string \<Rightarrow> bool" where
  "responded_interested db meetingId userId =
     list_ex (\<lambda>mr. r_meeting_id mr = meetingId \<and> r_user_id mr = userId
                 \<and> (r_response mr = ''available'' \<or> r_response mr = ''maybe''))
       (meeting_responses db)"

definition is_pending_job_of :: "nat \<Rightarrow> notification_row \<Rightarrow> bool" where
  "is_pending_job_of meetingId n = (n_meeting_id n = meetingId \<and> n_status n = ''pending'')"

section \<open>Facts about the runtime's dates\<close>

lemma time_decomposition:
  "Day t * msPerDay + HourFromTime t * msPerHour + MinFromTime t * msPerMinute
     + SecFromTime t * msPerSecond + msFromTime t = t"
proof -
  define s where "s = t div 1000"
  define m where "m = t div 60000"
  define h where "h = t div 3600000"
  define d where "d = t div 86400000"
  have ms: "m = s div 60" unfolding m_def s_def using zdiv_zmult2_eq[of 60 t 1000] by simp
  have hm: "h = m div 60" unfolding h_def m_def using zdiv_zmult2_eq[of 60 t 60000] by simp
  have dh: "d = h div 24" unfolding d_def h_def using zdiv_zmult2_eq[of 24 t 3600000] by simp
  have e1: "t = s * 1000 + t mod 1000" unfolding s_def by simp
  have e2: "s = m * 60 + s mod 60" unfolding ms by simp
  have e3: "m = h * 60 + m mod 60" unfolding hm by simp
  have e4: "h = d * 24 + h mod 24" unfolding dh by simp
  define a where "a = t mod 1000"
  define b where "b = s mod 60"
  define c where "c = m mod 60"
  define e where "e = h mod 24"
  have "d * 86400000 + e * 3600000 + c * 60000 + b * 1000 + a = t"
    using e1 e2 e3 e4 unfolding a_def[symmetric] b_def[symmetric] c_def[symmetric] e_def[symmetric]
    by linarith
  then show ?thesis
    unfolding Day_def HourFromTime_def MinFromTime_def SecFromTime_def msFromTime_def
      msPerDay_def msPerHour_def msPerMinute_def msPerSecond_def
      a_def b_def c_def e_def s_def m_def h_def d_def .
qed

lemma setHours_getHours: "setHours t (getHours t - v) = TimeClip (t - v * msPerHour)"
proof -
  have "MakeDate (Day t) (MakeTime (HourFromTime t - v) (MinFromTime t) (SecFromTime t) (msFromTime t))
        = (Day t * msPerDay + HourFromTime t * msPerHour + MinFromTime t * msPerMinute
     + SecFromTime t * msPerSecond + msFromTime t) - v * msPerHour"
    unfolding MakeDate_def MakeTime_def by (simp add: algebra_simps)
  then show ?thesis unfolding setHours_def getHours_def time_decomposition by simp
qed

lemma setMinutes_getMinutes: "setMinutes t (getMinutes t - v) = TimeClip (t - v * msPerMinute)"
proof -
  have "MakeDate (Day t) (MakeTime (HourFromTime t) (MinFromTime t - v) (SecFromTime t) (msFromTime t))
        = (Day t * msPerDay + HourFromTime t * msPerHour + MinFromTime t * msPerMinute
     + SecFromTime t * msPerSecond + msFromTime t) - v * msPerMinute"
    unfolding MakeDate_def MakeTime_def by (simp add: algebra_simps)
  then show ?thesis unfolding setMinutes_def getMinutes_def time_decomposition by simp
qed

lemma setDate_getDate: "setDate t (getDate t + k) = TimeClip (t + k * msPerDay)"
proof -
  have "MakeDate (Day t - DateFromTime t + (DateFromTime t + k)) (TimeWithinDay t)
        = (t div msPerDay * msPerDay + t mod msPerDay) + k * msPerDay"
    unfolding MakeDate_def Day_def TimeWithinDay_def by (simp add: algebra_simps)
  then show ?thesis unfolding setDate_def getDate_def by simp
qed

lemma year_of_era_endpoints:
  "list_all (\<lambda>y. year_of_era (days_before_year y) = y
                \<and> year_of_era (last_day_of_year y) = y
                \<and> last_day_of_year y - days_before_year y \<le> 365
                \<and> days_before_year y \<le> last_day_of_year y) [0..399]"
  by code_simp

lemma endpoint_facts:
  assumes "0 \<le> y" and "y \<le> 399"
  shows "year_of_era (days_before_year y) = y" and "year_of_era (last_day_of_year y) = y"
    and "last_day_of_year y - days_before_year y \<le> 365"
proof -
  have "y \<in> set [0..399]" using assms by simp
  with year_of_era_endpoints show "year_of_era (days_before_year y) = y"
    and "year_of_era (last_day_of_year y) = y"
    and "last_day_of_year y - days_before_year y \<le> 365"
    unfolding list_all_iff by blast+
qed

lemma adjusted_step:
  fixes d :: nat
  shows "int d - int (d div 1460) + int (d div 36524) - int (d div 146096)
         \<le> int (Suc d) - int (Suc d div 1460) + int (Suc d div 36524) - int (Suc d div 146096)"
proof -
  have "Suc d mod 36524 = 0" if "Suc d mod 146096 = 0"
  proof -
    have "Suc d mod 146096 mod 36524 = Suc d mod 36524"
      by (rule mod_mod_cancel) simp
    with that show ?thesis by simp
  qed
  then show ?thesis by (auto simp: div_Suc)
qed

lemma adjusted_mono:
  fixes a b :: nat
  assumes "a \<le> b"
  shows "int a - int (a div 1460) + int (a div 36524) - int (a div 146096)
         \<le> int b - int (b div 1460) + int (b div 36524) - int (b div 146096)"
  using assms
  by (rule lift_Suc_mono_le[where f = "\<lambda>d. int d - int (d div 1460) + int (d div 36524) - int (d div 146096)", OF adjusted_step])

lemma year_of_era_mono:
  assumes "0 \<le> a" and "a \<le> b"
  shows "year_of_era a \<le> year_of_era b"
proof -
  obtain m n :: nat where a: "a = int m" and b: "b = int n"
    using assms by (metis nonneg_int_cases order_trans)
  with assms have "m \<le> n" by simp
  from adjusted_mono[OF this] show ?thesis
    unfolding year_of_era_def a b by (simp add: zdiv_int zdiv_mono1)
qed

lemma find_year:
  assumes "0 \<le> doe" and "doe \<le> last_day_of_year (int k)" and "k \<le> 399"
  shows "\<exists>y. 0 \<le> y \<and> y \<le> int k \<and> days_before_year y \<le> doe \<and> doe \<le> last_day_of_year y"
  using assms
proof (induction k)
  case 0
  then show ?case by (intro exI[of _ 0]) (simp add: days_before_year_def)
next
  case (Suc k)
  show ?case
  proof (cases "doe \<le> last_day_of_year (int k)")
    case True
    with Suc obtain y where "0 \<le> y" "y \<le> int k" "days_before_year y \<le> doe"
      "doe \<le> last_day_of_year y" by auto
    then show ?thesis by (intro exI[of _ y]) simp
  next
    case False
    with Suc.prems have "days_before_year (int (Suc k)) \<le> doe"
      unfolding last_day_of_year_def by (simp add: algebra_simps split: if_splits)
    with Suc.prems show ?thesis by (intro exI[of _ "int (Suc k)"]) simp
  qed
qed

lemma year_of_era_correct:
  assumes "0 \<le> doe" and "doe \<le> 146096"
  shows "0 \<le> year_of_era doe \<and> year_of_era doe \<le> 399
         \<and> 0 \<le> doe - days_before_year (year_of_era doe)
         \<and> doe - days_before_year (year_of_era doe) \<le> 365"
proof -
  have "doe \<le> last_day_of_year (int 399)" using assms unfolding last_day_of_year_def by simp
  from find_year[OF assms(1) this] obtain y where y: "0 \<le> y" "y \<le> 399"
    "days_before_year y \<le> doe" "doe \<le> last_day_of_year y" by auto
  have nonneg: "0 \<le> days_before_year y" using y(1) unfolding days_before_year_def
    by (smt (verit) div_by_1 zdiv_mono2 pos_imp_zdiv_nonneg_iff)
  have "year_of_era (days_before_year y) \<le> year_of_era doe"
    by (rule year_of_era_mono[OF nonneg y(3)])
  moreover have "year_of_era doe \<le> year_of_era (last_day_of_year y)"
    by (rule year_of_era_mono[OF assms(1) y(4)])
  ultimately have eq: "year_of_era doe = y"
    using endpoint_facts(1,2)[OF y(1,2)] by simp
  from endpoint_facts(3)[OF y(1,2)] y show ?thesis unfolding eq by simp
qed


lemma civil_round_trip:
  "(case civil_from_days z of
      (y, m, d) \<Rightarrow> 0 \<le> m \<and> m \<le> 11 \<and> days_from_civil y m + d - 1 = z)"
proof -
  define z1 where "z1 = z + 719468"
  define era where "era = z1 div 146097"
  define doe where "doe = z1 - era * 146097"
  define yoe where "yoe = year_of_era doe"
  define doy where "doy = doe - days_before_year yoe"
  define mp where "mp = (5 * doy + 2) div 153"
  define d where "d = doy - (153 * mp + 2) div 5 + 1"
  define m where "m = (if mp < 10 then mp + 2 else mp - 10)"
  define y where "y = yoe + era * 400 + (if m \<le> 1 then 1 else 0)"
  have cfd: "civil_from_days z = (y, m, d)"
    unfolding civil_from_days_def Let_def y_def m_def d_def mp_def doy_def yoe_def doe_def
      era_def z1_def ..
  have "doe = z1 mod 146097" unfolding doe_def era_def by (simp add: minus_div_mult_eq_mod)
  then have doe: "0 \<le> doe" "doe \<le> 146096" by simp_all
  from year_of_era_correct[OF doe] have yoe: "0 \<le> yoe" "yoe \<le> 399"
    and doy: "0 \<le> doy" "doy \<le> 365"
    unfolding yoe_def doy_def by simp_all
  have mp: "0 \<le> mp" "mp \<le> 11" unfolding mp_def using doy by simp_all
  have m: "0 \<le> m" "m \<le> 11" unfolding m_def using mp by simp_all
  have m1: "(m \<le> 1) = (10 \<le> mp)" unfolding m_def using mp by auto
  have y1: "(if m \<le> 1 then y - 1 else y) = yoe + era * 400" unfolding y_def by simp
  have e: "(yoe + era * 400) div 400 = era" using yoe by simp
  have mp': "(if m \<le> 1 then m + 10 else m - 2) = mp" unfolding m_def using mp by auto
  have "days_from_civil y m
          = era * 146097 + (days_before_year yoe + (153 * mp + 2) div 5) - 719468"
    unfolding days_from_civil_def Let_def y1 e mp' by simp
  then have "days_from_civil y m + d - 1 = era * 146097 + doe - 719468"
    unfolding d_def doy_def by simp
  also have "\<dots> = z" unfolding doe_def z1_def by simp
  finally show ?thesis using m cfd by simp
qed

lemma MakeDay_own_month:
  "MakeDay (YearFromTime t) (MonthFromTime t) date = Day t - DateFromTime t + date"
proof -
  obtain y m d where c: "civil_from_days (Day t) = (y, m, d)"
    by (metis prod_cases3)
  with civil_round_trip[of "Day t"] have m: "0 \<le> m" "m \<le> 11"
    and r: "days_from_civil y m + d - 1 = Day t" by simp_all
  from m have "m div 12 = 0" "m mod 12 = m" by simp_all
  with r show ?thesis
    unfolding MakeDay_def YearFromTime_def MonthFromTime_def DateFromTime_def c by simp
qed

lemma setDate_is_MakeDay:
  "setDate t date
     = TimeClip (MakeDate (MakeDay (YearFromTime t) (MonthFromTime t) date) (TimeWithinDay t))"
  unfolding setDate_def MakeDay_own_month ..

lemma Date_UTC_examples:
  "Date_UTC 1970 0 1 0 0 = 0
   \<and> Date_UTC 2024 0 31 9 0 = 1706691600000
   \<and> Date_UTC 2024 1 29 9 0 = 1709197200000
   \<and> Date_UTC 2024 2 2 9 0 = 1709370000000
   \<and> Date_UTC 2024 5 1 12 0 = 1717243200000
   \<and> getDay (Date_UTC 2024 5 1 0 0) = 6
   \<and> getDay (Date_UTC 2024 5 2 0 0) = 0
   \<and> getDay (Date_UTC 2024 5 3 0 0) = 1
   \<and> getMonth (Date_UTC 2024 0 31 9 0) = 0
   \<and> getDate (Date_UTC 2024 0 31 9 0) = 31
   \<and> getHours (Date_UTC 2024 0 31 9 0) = 9
   \<and> getMonth (Date_UTC 2024 1 29 9 0) = 1
   \<and> getDate (Date_UTC 2024 1 29 9 0) = 29"
  by code_simp

section \<open>Facts about scheduling\<close>

lemma createNotificationRecord_appends:
  "notifications (createNotificationRecord mid uid t ty db)
     = notifications db @
         [\<lparr>n_id = autoincrement (notifications_seq db) (map n_id (notifications db)),
           n_meeting_id = mid, n_user_id = uid, n_notification_time = t,
           n_notification_type = ty, n_status = ''pending''\<rparr>]"
  unfolding createNotificationRecord_def by (simp add: Let_def)

lemma reminder_loop_appends:
  "\<exists>new. notifications (reminder_loop now mid uid umt rs db) = notifications db @ new
         \<and> list_all (\<lambda>n. n_meeting_id n = mid \<and> n_user_id n = uid \<and> n_status n = ''pending'') new"
proof (induction rs arbitrary: db)
  case Nil
  then show ?case by simp
next
  case (Cons r rs)
  define db1 where "db1 = (case calculateNotificationTime umt r of
          None \<Rightarrow> db
        | Some notificationTime \<Rightarrow>
            if notificationTime > now
            then createNotificationRecord mid uid notificationTime r db
            else db)"
  have step: "\<exists>new. notifications db1 = notifications db @ new
         \<and> list_all (\<lambda>n. n_meeting_id n = mid \<and> n_user_id n = uid \<and> n_status n = ''pending'') new"
    unfolding db1_def by (auto simp: createNotificationRecord_appends split: option.splits)
  from step obtain new1 where
    n1: "notifications db1 = notifications db @ new1"
    and a1: "list_all (\<lambda>n. n_meeting_id n = mid \<and> n_user_id n = uid \<and> n_status n = ''pending'') new1"
    by blast
  from Cons.IH[of db1] obtain new2 where
    n2: "notifications (reminder_loop now mid uid umt rs db1) = notifications db1 @ new2"
    and a2: "list_all (\<lambda>n. n_meeting_id n = mid \<and> n_user_id n = uid \<and> n_status n = ''pending'') new2"
    by blast
  have "notifications (reminder_loop now mid uid umt (r # rs) db) = notifications db @ (new1 @ new2)"
    using n1 n2 unfolding db1_def by simp
  moreover have "list_all (\<lambda>n. n_meeting_id n = mid \<and> n_user_id n = uid \<and> n_status n = ''pending'')
                   (new1 @ new2)"
    using a1 a2 by simp
  ultimately show ?case by blast
qed

lemma findById_Some_id:
  "UserRepository_findById db ident = Some user \<Longrightarrow> ident = Some (u_id user)"
  unfolding UserRepository_findById_def
  by (auto split: option.splits simp: find_Some_iff)

lemma scheduleUserNotifications_appends:
  assumes "scheduleUserNotifications zones now meeting p db = Inr db'"
  shows "\<exists>new. notifications db' = notifications db @ new
         \<and> list_all (\<lambda>n. n_meeting_id n = m_id meeting \<and> p_id p = Some (n_user_id n)
                        \<and> n_status n = ''pending'') new"
proof (cases "UserRepository_findById db (p_id p)")
  case None
  with assms have "db' = db" unfolding scheduleUserNotifications_def by simp
  then show ?thesis by simp
next
  case (Some user)
  then have pid: "p_id p = Some (u_id user)" by (rule findById_Some_id)
  from assms Some obtain umt where
    "db' = reminder_loop now (m_id meeting) (u_id user) umt
             (case parse_notification_preferences (u_notification_preferences user) of
                None \<Rightarrow> DEFAULT_REMINDERS | Some prefs \<Rightarrow> prefs) db"
    unfolding scheduleUserNotifications_def by (auto split: sum.splits)
  moreover obtain new where
    "notifications (reminder_loop now (m_id meeting) (u_id user) umt
             (case parse_notification_preferences (u_notification_preferences user) of
                None \<Rightarrow> DEFAULT_REMINDERS | Some prefs \<Rightarrow> prefs) db) = notifications db @ new"
    and "list_all (\<lambda>n. n_meeting_id n = m_id meeting \<and> n_user_id n = u_id user
                      \<and> n_status n = ''pending'') new"
    using reminder_loop_appends by blast
  ultimately have "notifications db' = notifications db @ new
         \<and> list_all (\<lambda>n. n_meeting_id n = m_id meeting \<and> p_id p = Some (n_user_id n)
                        \<and> n_status n = ''pending'') new"
    using pid by (auto simp: list_all_iff)
  then show ?thesis by blast
qed

lemma participants_loop_appends:
  "\<exists>new. notifications (participants_loop zones now meeting ps db) = notifications db @ new
         \<and> list_all (\<lambda>n. n_meeting_id n = m_id meeting \<and> n_status n = ''pending''
                        \<and> list_ex (\<lambda>p. p_id p = Some (n_user_id n)) ps) new"
proof (induction ps arbitrary: db)
  case Nil
  then show ?case by simp
next
  case (Cons p ps)
  show ?case
  proof (cases "scheduleUserNotifications zones now meeting p db")
    case (Inl e)
    then show ?thesis by simp
  next
    case (Inr db1)
    from scheduleUserNotifications_appends[OF Inr] obtain new1 where
      n1: "notifications db1 = notifications db @ new1"
      and a1: "list_all (\<lambda>n. n_meeting_id n = m_id meeting \<and> p_id p = Some (n_user_id n)
                        \<and> n_status n = ''pending'') new1" by blast
    from Cons.IH[of db1] obtain new2 where
      n2: "notifications (participants_loop zones now meeting ps db1) = notifications db1 @ new2"
      and a2: "list_all (\<lambda>n. n_meeting_id n = m_id meeting \<and> n_status n = ''pending''
                        \<and> list_ex (\<lambda>p. p_id p = Some (n_user_id n)) ps) new2" by blast
    have "notifications (participants_loop zones now meeting (p # ps) db)
            = notifications db @ (new1 @ new2)"
      using Inr n1 n2 by simp
    moreover have "list_all (\<lambda>n. n_meeting_id n = m_id meeting \<and> n_status n = ''pending''
                        \<and> list_ex (\<lambda>q. p_id q = Some (n_user_id n)) (p # ps)) (new1 @ new2)"
      using a1 a2 by (auto simp: list_all_iff list_ex_iff)
    ultimately show ?thesis by blast
  qed
qed

lemma getParticipants_from_response:
  assumes "p \<in> set (getParticipants db meetingId)" and "p_id p = Some uid"
  shows "\<exists>mr \<in> set (meeting_responses db).
           r_meeting_id mr = meetingId \<and> r_user_id mr = uid \<and> r_response mr = p_response p"
proof -
  from assms(1) obtain mr where mr: "mr \<in> set (meeting_responses db)"
    "r_meeting_id mr = meetingId" "p = participant_of db mr"
    unfolding getParticipants_def by auto
  from mr(3) assms(2) have "r_user_id mr = uid \<and> r_response mr = p_response p"
    unfolding participant_of_def by (auto split: option.splits simp: find_Some_iff)
  with mr show ?thesis by blast
qed

lemma scheduleNotifications_appends:
  "\<exists>new. notifications (scheduleNotifications zones now meeting db) = notifications db @ new
         \<and> list_all (\<lambda>n. n_meeting_id n = m_id meeting \<and> n_status n = ''pending''
                        \<and> responded_interested db (m_id meeting) (n_user_id n)) new"
proof (cases "filter interested (getParticipants db (m_id meeting)) = []")
  case True
  then show ?thesis unfolding scheduleNotifications_def by (simp add: Let_def)
next
  case False
  let ?ps = "filter interested (getParticipants db (m_id meeting))"
  from participants_loop_appends[of zones now meeting ?ps db] obtain new where
    n: "notifications (participants_loop zones now meeting ?ps db) = notifications db @ new"
    and a: "list_all (\<lambda>n. n_meeting_id n = m_id meeting \<and> n_status n = ''pending''
                        \<and> list_ex (\<lambda>p. p_id p = Some (n_user_id n)) ?ps) new" by blast
  have "list_all (\<lambda>n. n_meeting_id n = m_id meeting \<and> n_status n = ''pending''
                        \<and> responded_interested db (m_id meeting) (n_user_id n)) new"
    unfolding list_all_iff
  proof
    fix x assume x: "x \<in> set new"
    with a have mx: "n_meeting_id x = m_id meeting" "n_status x = ''pending''"
      and ex: "list_ex (\<lambda>p. p_id p = Some (n_user_id x)) ?ps"
      by (auto simp: list_all_iff)
    from ex obtain p where p: "p \<in> set (getParticipants db (m_id meeting))" "interested p"
      "p_id p = Some (n_user_id x)" by (auto simp: list_ex_iff)
    from getParticipants_from_response[OF p(1) p(3)] p(2)
    have "responded_interested db (m_id meeting) (n_user_id x)"
      unfolding responded_interested_def interested_def list_ex_iff by auto
    with mx show "n_meeting_id x = m_id meeting \<and> n_status x = ''pending''
                        \<and> responded_interested db (m_id meeting) (n_user_id x)" by simp
  qed
  with n False show ?thesis unfolding scheduleNotifications_def by (auto simp: Let_def)
qed

lemma MeetingRepository_findById_id:
  "MeetingRepository_findById db ident = Some m \<Longrightarrow> m_id m = ident"
  unfolding MeetingRepository_findById_def by (auto simp: find_Some_iff)

section \<open>Facts about the dispatcher and the search\<close>

lemma join_row_id:
  assumes "join_row db n = Some row"
  shows "d_id row = n_meeting_id n \<and> d_meeting_id row = n_meeting_id n"
proof -
  from assms obtain m where m: "MeetingRepository_findById db (n_meeting_id n) = Some m"
    and r: "d_id row = m_id m" "d_meeting_id row = n_meeting_id n"
    unfolding join_row_def by (auto split: option.splits)
  from MeetingRepository_findById_id[OF m] r show ?thesis by simp
qed

lemma due_row_carries_meeting_id:
  assumes "row \<in> set (pendingNotifications now db)"
  shows "d_id row = d_meeting_id row"
proof -
  from assms have "row \<in> set (List.map_filter (join_row db)
          (filter (\<lambda>n. n_status n = ''pending'' \<and> text_le (n_notification_time n) now)
             (notifications db)))"
    unfolding pendingNotifications_def by (auto dest: in_set_takeD)
  then obtain n where "join_row db n = Some row"
    unfolding List.map_filter_def by auto
  from join_row_id[OF this] show ?thesis by simp
qed

lemma markNotificationSent_ignores_status:
  "map n_status (notifications (markNotificationSent notificationId status db))
     = map (\<lambda>n. if n_id n = notificationId then status else n_status n) (notifications db)"
  unfolding markNotificationSent_def by simp

lemma workingHoursOnly_is_never_read:
  "findOptimalMeetingTime zones now db userIds duration (prefs\<lparr>pref_workingHoursOnly := w\<rparr>)
     = findOptimalMeetingTime zones now db userIds duration prefs"
  unfolding findOptimalMeetingTime_def findOptimalMeetingTimes_def by simp

section \<open>Facts about conflicts\<close>

lemma three_way_is_half_open:
  fixes s e S E :: int
  assumes "s < e" and "S < E"
  shows "((s \<le> S \<and> e > S) \<or> (s < E \<and> e \<ge> E) \<or> (s \<ge> S \<and> e \<le> E))
         = overlaps_half_open s e S E"
  using assms unfolding overlaps_half_open_def by auto

lemma text_le_four_digit:
  assumes "four_digit_year a" and "four_digit_year b"
  shows "text_le a b = (a \<le> b)"
  using assms unfolding text_le_def iso_key_def four_digit_year_def
  by (simp add: less_eq_prod_def)

lemma text_lt_four_digit:
  assumes "four_digit_year a" and "four_digit_year b"
  shows "text_lt a b = (a < b)"
  using assms unfolding text_lt_def iso_key_def four_digit_year_def
  by (simp add: less_prod_def)

lemma iso_key_le_four_digit:
  assumes "four_digit_year a" and "four_digit_year b"
  shows "(iso_key a \<le> iso_key b) = (a \<le> b)"
  using text_le_four_digit[OF assms] unfolding text_le_def .

lemma insort_key_same_order:
  assumes "\<forall>y \<in> set xs. (f a \<le> f y) = (g a \<le> g y)"
  shows "insort_key f a xs = insort_key g a xs"
  using assms by (induction xs) simp_all

lemma sort_key_same_order:
  assumes "\<forall>x \<in> set xs. \<forall>y \<in> set xs. (f x \<le> f y) = (g x \<le> g y)"
  shows "sort_key f xs = sort_key g xs"
  using assms
proof (induction xs)
  case Nil
  show ?case by simp
next
  case (Cons x xs)
  then have IH: "sort_key f xs = sort_key g xs" by simp
  have "insort_key f x (sort_key g xs) = insort_key g x (sort_key g xs)"
  proof (rule insort_key_same_order)
    show "\<forall>y \<in> set (sort_key g xs). (f x \<le> f y) = (g x \<le> g y)"
      using Cons.prems by simp
  qed
  with IH show ?case by simp
qed

lemma findConflicts_refines:
  assumes inv: "list_all (\<lambda>ua. a_user_id ua = u \<and> a_availability_type ua = ''busy''
                    \<longrightarrow> proper_interval (a_start_datetime ua) (a_end_datetime ua))
                  (user_availability db)"
    and win: "proper_interval S E"
  shows "findConflicts db u S E x = spec_findConflicts db u S E x"
proof -
  let ?code = "\<lambda>ua. a_user_id ua = u
              \<and> a_availability_type ua = ''busy''
              \<and> ((text_le (a_start_datetime ua) S \<and> text_lt S (a_end_datetime ua))
                 \<or> (text_lt (a_start_datetime ua) E \<and> text_le E (a_end_datetime ua))
                 \<or> (text_le S (a_start_datetime ua) \<and> text_le (a_end_datetime ua) E))
              \<and> (case x of
                    None \<Rightarrow> True
                  | Some x \<Rightarrow> (if x = 0 then True else a_id ua \<noteq> x))"
  let ?spec = "\<lambda>ua. a_user_id ua = u \<and> a_availability_type ua = ''busy''
                  \<and> overlaps_half_open (a_start_datetime ua) (a_end_datetime ua) S E
                  \<and> not_excluded x ua"
  from win have SE: "S < E" and fS: "four_digit_year S" and fE: "four_digit_year E"
    unfolding proper_interval_def by simp_all
  have rows: "a_start_datetime ua < a_end_datetime ua
              \<and> four_digit_year (a_start_datetime ua) \<and> four_digit_year (a_end_datetime ua)"
    if "ua \<in> set (user_availability db)" and "a_user_id ua = u"
      and "a_availability_type ua = ''busy''" for ua
    using inv that unfolding proper_interval_def list_all_iff by blast
  have fl: "filter ?code (user_availability db) = filter ?spec (user_availability db)"
  proof (rule filter_cong[OF refl])
    fix ua assume mem: "ua \<in> set (user_availability db)"
    show "?code ua = ?spec ua"
    proof (cases "a_user_id ua = u \<and> a_availability_type ua = ''busy''")
      case False
      then show ?thesis by blast
    next
      case True
      with rows[OF mem] have se: "a_start_datetime ua < a_end_datetime ua"
        and fs: "four_digit_year (a_start_datetime ua)"
        and fe: "four_digit_year (a_end_datetime ua)"
        by simp_all
      have "((text_le (a_start_datetime ua) S \<and> text_lt S (a_end_datetime ua))
                 \<or> (text_lt (a_start_datetime ua) E \<and> text_le E (a_end_datetime ua))
                 \<or> (text_le S (a_start_datetime ua) \<and> text_le (a_end_datetime ua) E))
            = overlaps_half_open (a_start_datetime ua) (a_end_datetime ua) S E"
        unfolding text_le_four_digit[OF fs fS] text_lt_four_digit[OF fS fe]
          text_lt_four_digit[OF fs fE] text_le_four_digit[OF fE fe]
          text_le_four_digit[OF fS fs] text_le_four_digit[OF fe fE]
        using three_way_is_half_open[OF se SE] by simp
      then show ?thesis unfolding not_excluded_def by simp
    qed
  qed
  have "sort_key (\<lambda>ua. iso_key (a_start_datetime ua)) (filter ?spec (user_availability db))
        = sort_key a_start_datetime (filter ?spec (user_availability db))"
  proof (rule sort_key_same_order, intro ballI)
    fix a b
    assume "a \<in> set (filter ?spec (user_availability db))"
      and "b \<in> set (filter ?spec (user_availability db))"
    then have "four_digit_year (a_start_datetime a)" and "four_digit_year (a_start_datetime b)"
      using rows by simp_all
    then show "(iso_key (a_start_datetime a) \<le> iso_key (a_start_datetime b))
               = (a_start_datetime a \<le> a_start_datetime b)"
      by (rule iso_key_le_four_digit)
  qed
  with fl show ?thesis unfolding findConflicts_def spec_findConflicts_def by simp
qed

section \<open>The claims\<close>

text \<open>
  C1. The claim: each reminder fires at the meeting's UTC start minus the offset, the
  conversion to the participant's zone being for display only, and a job is created iff
  that instant is later than now; a meeting at 2024-06-01T12:00Z with offsets 24h and 1h
  and now = 10:00Z gets exactly the 1h job. The code subtracts the offset from the Date
  that \<open>convertToUserTimezone\<close> returns, whose time value is moved by the zone's offset.
  For a participant in America/Los_Angeles the example creates no job at all; for one in
  Asia/Tokyo the 1h job fires at 20:00Z, eight hours after the meeting began; only for a
  participant in UTC it is the job at 11:00Z. (\<open>Date_UTC\<close> counts months from 0, as
  \<open>Date.UTC\<close> does: \<open>Date_UTC 2024 5 1 12 0\<close> is 2024-06-01T12:00Z.)
\<close>

theorem fire_time_moves_with_participant_zone:
  "notifications
     (scheduleNotifications example_zones (Date_UTC 2024 5 1 10 0)
        (example_meeting 1 (Date_UTC 2024 5 1 12 0))
        (meeting_database ''America/Los_Angeles'' [''24h'', ''1h''])) = []
   \<and> map (\<lambda>n. (n_notification_type n, n_notification_time n))
       (notifications
          (scheduleNotifications example_zones (Date_UTC 2024 5 1 10 0)
             (example_meeting 1 (Date_UTC 2024 5 1 12 0))
             (meeting_database ''Asia/Tokyo'' [''24h'', ''1h''])))
       = [(''1h'', Date_UTC 2024 5 1 20 0)]
   \<and> map (\<lambda>n. (n_notification_type n, n_notification_time n))
       (notifications
          (scheduleNotifications example_zones (Date_UTC 2024 5 1 10 0)
             (example_meeting 1 (Date_UTC 2024 5 1 12 0))
             (meeting_database ''UTC'' [''24h'', ''1h''])))
       = [(''1h'', Date_UTC 2024 5 1 11 0)]"
  by code_simp

text \<open>
  C2. The claim: a monthly series keeps the day of month and clamps it to the last day
  of a shorter month, so that 2024-01-31T09:00Z with two occurrences gives
  2024-01-31 and 2024-02-29. The code calls \<open>setMonth(getMonth() + 1)\<close>, and the 31st
  of February runs over into March: the second occurrence is 2024-03-02T09:00Z
  (\<open>Date_UTC 2024 2 2 9 0\<close>), not 2024-02-29T09:00Z (\<open>Date_UTC 2024 1 29 9 0\<close>), and the
  series has no meeting in February.
\<close>

theorem monthly_from_jan_31_skips_february:
  "map m_proposed_datetime
     (fst (createRecurringMeetings
             \<lparr>ri_proposer_id = ''u1'', ri_pattern = monthly,
              ri_parsed_datetime = Date_UTC 2024 0 31 9 0, ri_parsed_end_date = None,
              ri_max_occurrences = Some 2, ri_duration = None\<rparr>
             empty_database))
   = [Some (Date_UTC 2024 0 31 9 0), Some (Date_UTC 2024 2 2 9 0)]"
  by code_simp

text \<open>
  C3. The claim: for every window and every set of stored intervals, \<open>findConflicts\<close>
  returns exactly the user's busy intervals that overlap under the half-open test, so
  that an interval that ends where the window starts is never returned and one that
  overlaps always is. The query has a three-way condition instead, and it compares the
  text of the timestamps. For the busy interval 10:00 to 11:00 and the empty window
  that starts and ends at 11:00, it returns the interval, which ends where the window
  starts and which the half-open test rejects. For a stored interval whose end is before
  its start (11:00 to 10:00) and the window 10:15 to 10:45 it returns the interval as
  well, and the half-open test rejects it. And the busy interval from 9999-12-31T23:00Z
  to 10000-01-01T01:00Z is not returned for the window from 23:30Z to 00:30Z inside it:
  the text \<open>+010000-01-01T...\<close> sorts before the text \<open>9999-12-31T...\<close>.
\<close>

theorem findConflicts_differs_from_half_open:
  "map a_id (findConflicts busy_database ''u1'' (Date_UTC 2024 5 3 11 0)
               (Date_UTC 2024 5 3 11 0) None) = [1]
   \<and> spec_findConflicts busy_database ''u1'' (Date_UTC 2024 5 3 11 0)
        (Date_UTC 2024 5 3 11 0) None = []
   \<and> map a_id (findConflicts inverted_database ''u1'' (Date_UTC 2024 5 3 10 15)
                  (Date_UTC 2024 5 3 10 45) None) = [1]
   \<and> spec_findConflicts inverted_database ''u1'' (Date_UTC 2024 5 3 10 15)
        (Date_UTC 2024 5 3 10 45) None = []
   \<and> findConflicts year_10000_database ''u1'' (Date_UTC 9999 11 31 23 30)
        (Date_UTC 10000 0 1 0 30) None = []
   \<and> map a_id (spec_findConflicts year_10000_database ''u1'' (Date_UTC 9999 11 31 23 30)
                  (Date_UTC 10000 0 1 0 30) None) = [1]"
  by code_simp

text \<open>
  C3, as amended. When the window is not empty (its start is before its end), every
  stored busy interval of the user has its start before its end, and all these
  instants lie in the years 0000 to 9999 (where the order of the text is the order of
  the instants), \<open>findConflicts\<close> returns exactly the user's busy intervals that overlap
  the window under the half-open test \<open>existing.start < candidate.end &&
  candidate.start < existing.end\<close>, less the excluded id, ordered by start ascending.
  There an interval that ends where the window starts, or starts where it ends, is never
  returned, and a busy interval of the user that overlaps is always returned.
\<close>

theorem findConflicts_half_open:
  assumes inv: "list_all (\<lambda>ua. a_user_id ua = userId \<and> a_availability_type ua = ''busy''
                    \<longrightarrow> proper_interval (a_start_datetime ua) (a_end_datetime ua))
                  (user_availability db)"
    and win: "proper_interval startUtc endUtc"
  shows "findConflicts db userId startUtc endUtc excludeId
           = spec_findConflicts db userId startUtc endUtc excludeId
       \<and> sorted (map a_start_datetime (findConflicts db userId startUtc endUtc excludeId))
       \<and> set (findConflicts db userId startUtc endUtc excludeId)
           = {ua \<in> set (user_availability db).
                a_user_id ua = userId \<and> a_availability_type ua = ''busy''
                \<and> a_start_datetime ua < endUtc \<and> startUtc < a_end_datetime ua
                \<and> not_excluded excludeId ua}
       \<and> list_all (\<lambda>ua. a_end_datetime ua \<noteq> startUtc \<and> a_start_datetime ua \<noteq> endUtc)
           (findConflicts db userId startUtc endUtc excludeId)"
proof -
  note eq = findConflicts_refines[OF inv win, of excludeId]
  have s: "sorted (map a_start_datetime (findConflicts db userId startUtc endUtc excludeId))"
    unfolding eq spec_findConflicts_def by simp
  have m: "set (findConflicts db userId startUtc endUtc excludeId)
           = {ua \<in> set (user_availability db).
                a_user_id ua = userId \<and> a_availability_type ua = ''busy''
                \<and> a_start_datetime ua < endUtc \<and> startUtc < a_end_datetime ua
                \<and> not_excluded excludeId ua}"
    unfolding eq spec_findConflicts_def overlaps_half_open_def by auto
  have b: "list_all (\<lambda>ua. a_end_datetime ua \<noteq> startUtc \<and> a_start_datetime ua \<noteq> endUtc)
           (findConflicts db userId startUtc endUtc excludeId)"
    unfolding list_all_iff m by auto
  show ?thesis using eq s m b by simp
qed


theorem findConflicts_half_open_witness:
  "list_all (\<lambda>ua. a_user_id ua = ''u1'' \<and> a_availability_type ua = ''busy''
                \<longrightarrow> proper_interval (a_start_datetime ua) (a_end_datetime ua))
     (user_availability busy_database)
   \<and> proper_interval (Date_UTC 2024 5 3 11 0) (Date_UTC 2024 5 3 12 0)
   \<and> findConflicts busy_database ''u1'' (Date_UTC 2024 5 3 11 0) (Date_UTC 2024 5 3 12 0) None
       = []
   \<and> proper_interval (Date_UTC 2024 5 3 10 30) (Date_UTC 2024 5 3 11 30)
   \<and> map a_id (findConflicts busy_database ''u1'' (Date_UTC 2024 5 3 10 30)
                  (Date_UTC 2024 5 3 11 30) None) = [1]"
proof -
  have inv: "list_all (\<lambda>ua. a_user_id ua = ''u1'' \<and> a_availability_type ua = ''busy''
                \<longrightarrow> proper_interval (a_start_datetime ua) (a_end_datetime ua))
               (user_availability busy_database)"
    by code_simp
  have w1: "proper_interval (Date_UTC 2024 5 3 11 0) (Date_UTC 2024 5 3 12 0)" by code_simp
  have w2: "proper_interval (Date_UTC 2024 5 3 10 30) (Date_UTC 2024 5 3 11 30)" by code_simp
  have s1: "spec_findConflicts busy_database ''u1'' (Date_UTC 2024 5 3 11 0)
              (Date_UTC 2024 5 3 12 0) None = []"
    by code_simp
  have s2: "map a_id (spec_findConflicts busy_database ''u1'' (Date_UTC 2024 5 3 10 30)
              (Date_UTC 2024 5 3 11 30) None) = [1]"
    by code_simp
  from findConflicts_half_open[OF inv w1, of None] s1
  have 1: "findConflicts busy_database ''u1'' (Date_UTC 2024 5 3 11 0)
             (Date_UTC 2024 5 3 12 0) None = []"
    by simp
  from findConflicts_half_open[OF inv w2, of None] s2
  have 2: "map a_id (findConflicts busy_database ''u1'' (Date_UTC 2024 5 3 10 30)
                  (Date_UTC 2024 5 3 11 30) None) = [1]"
    by simp
  from inv w1 w2 1 2 show ?thesis by blast
qed

text \<open>
  C4. The claim: weekend days are skipped, and working hours are required, only when
  \<open>workingHoursOnly\<close> is true. The code passes the flag to
  \<open>findOptimalMeetingTimes\<close>, which never reads it, and the search skips Saturday and
  Sunday and requires working hours whatever the flag is. With the flag false, a user
  with no busy interval gets no suggestion on the weekend of 2024-06-01, and a user
  whose working hours are 0 to 6 gets none on Monday 2024-06-03.
\<close>

theorem workingHoursOnly_false_changes_nothing:
  "findOptimalMeetingTime example_zones (Date_UTC 2024 4 31 0 0)
     (empty_database\<lparr>users := [example_user ''u1'' ''UTC'' 9 17 []]\<rparr>) [''u1''] 60
     \<lparr>pref_startDate = Some (Date_UTC 2024 5 1 0 0),
      pref_endDate = Some (Date_UTC 2024 5 3 0 0),
      pref_workingHoursOnly = Some False\<rparr> = []
   \<and> findOptimalMeetingTime example_zones (Date_UTC 2024 4 31 0 0)
       (empty_database\<lparr>users := [example_user ''u1'' ''UTC'' 0 6 []]\<rparr>) [''u1''] 60
       \<lparr>pref_startDate = Some (Date_UTC 2024 5 3 0 0),
        pref_endDate = Some (Date_UTC 2024 5 4 0 0),
        pref_workingHoursOnly = Some False\<rparr> = []"
  by code_simp

text \<open>
  C5. The claim: the dispatcher never turns a cancelled job into a sent one, its update
  being conditional on the job still being pending. \<open>markNotificationSent\<close> updates
  \<open>WHERE id = ?\<close> and nothing else. A sweep reads job 1 as due; while it waits for the
  delivery, the meeting is cancelled and \<open>cancelNotifications\<close> sets the job to
  \<open>cancelled\<close>; the delivery succeeds and the job is set to \<open>sent\<close>.
\<close>

theorem cancelled_job_is_marked_sent:
  "map d_meeting_id (pendingNotifications (Date_UTC 2024 5 1 11 5) dispatch_database) = [1]
   \<and> map n_status (notifications (cancelNotifications 1 dispatch_database)) = [''cancelled'']
   \<and> map n_status
       (notifications
          (fold (sendNotification (\<lambda>n. Delivered))
             (pendingNotifications (Date_UTC 2024 5 1 11 5) dispatch_database)
             (cancelNotifications 1 dispatch_database)))
       = [''sent'']"
  by code_simp

text \<open>
  C6. The claim: for every user and candidate window, \<open>setBusy\<close> rejects the creation
  when \<open>findConflicts\<close> is not empty and creates the busy interval otherwise. The check
  is in the command, after its validation, and not in \<open>setBusyPeriod\<close>: a window of
  eight days that conflicts with nothing is refused by the validation and nothing is
  created, and \<open>setBusyPeriod\<close> called on a window that overlaps a stored interval
  stores the overlapping interval.
\<close>

theorem set_busy_refuses_long_window_and_repository_checks_nothing:
  "findConflicts empty_database ''u1'' (Date_UTC 2024 5 1 0 0) (Date_UTC 2024 5 9 0 0) None = []
   \<and> user_availability
       (snd (SetBusyCommand_execute ''u1''
               \<lparr>in_field_errors = [], in_parsed_start = Inr (Date_UTC 2024 5 1 0 0),
                in_parsed_end = Inr (Date_UTC 2024 5 9 0 0), in_reason = None\<rparr>
               empty_database)) = []
   \<and> map a_id (findConflicts busy_database ''u1'' (Date_UTC 2024 5 3 10 30)
                  (Date_UTC 2024 5 3 11 30) None) = [1]
   \<and> map (\<lambda>ua. (a_id ua, a_start_datetime ua, a_end_datetime ua))
       (user_availability
          (snd (setBusyPeriod ''u1'' (Date_UTC 2024 5 3 10 30) (Date_UTC 2024 5 3 11 30) None
                  busy_database)))
       = [(1, Date_UTC 2024 5 3 10 0, Date_UTC 2024 5 3 11 0),
          (2, Date_UTC 2024 5 3 10 30, Date_UTC 2024 5 3 11 30)]"
  by code_simp

text \<open>
  C6, as amended. For a window that passes the command's validation (start before end,
  at most seven days long), the set-busy command replies with the conflicts and leaves
  the stored intervals as they are when \<open>findConflicts\<close> for the user and the window is
  not empty, and otherwise stores the busy interval with \<open>setBusyPeriod\<close>. A window
  that fails the validation is refused before any conflict check. \<open>setBusyPeriod\<close>
  itself checks nothing and appends the interval.
\<close>

theorem set_busy_command_conflict_check:
  "(validateAvailabilityInput input = Inr (startUtc, endUtc)
      \<and> findConflicts db userId startUtc endUtc None \<noteq> []
      \<longrightarrow> SetBusyCommand_execute userId input db
            = (SchedulingConflictReply (findConflicts db userId startUtc endUtc None),
               ensureUserExists userId db)
        \<and> user_availability (snd (SetBusyCommand_execute userId input db))
            = user_availability db)
   \<and> (validateAvailabilityInput input = Inr (startUtc, endUtc)
      \<and> findConflicts db userId startUtc endUtc None = []
      \<longrightarrow> fst (SetBusyCommand_execute userId input db)
            = BusyPeriodSetReply (fst (setBusyPeriod userId startUtc endUtc (in_reason input) db))
        \<and> user_availability (snd (SetBusyCommand_execute userId input db))
            = user_availability db
              @ [fst (setBusyPeriod userId startUtc endUtc (in_reason input) db)])
   \<and> (validateAvailabilityInput input = Inl errors
      \<longrightarrow> SetBusyCommand_execute userId input db
            = (ValidationErrorReply errors, ensureUserExists userId db))
   \<and> (validateAvailabilityInput input = Inr (startUtc, endUtc)
      \<longrightarrow> in_field_errors input = []
        \<and> in_parsed_start input = Inr startUtc \<and> in_parsed_end input = Inr endUtc
        \<and> startUtc < endUtc \<and> endUtc - startUtc \<le> 7 * 24 * 60 * 60 * 1000)
   \<and> fst (setBusyPeriod userId startUtc endUtc reason db)
       = \<lparr>a_id = autoincrement (user_availability_seq db) (map a_id (user_availability db)),
          a_user_id = userId, a_start_datetime = startUtc, a_end_datetime = endUtc,
          a_availability_type = ''busy'', a_reason = reason, a_is_recurring = False\<rparr>
   \<and> user_availability (snd (setBusyPeriod userId startUtc endUtc reason db))
       = user_availability db @ [fst (setBusyPeriod userId startUtc endUtc reason db)]"
proof -
  have ua: "user_availability (ensureUserExists userId db) = user_availability db"
    unfolding ensureUserExists_def by (simp split: option.splits)
  have seq: "user_availability_seq (ensureUserExists userId db) = user_availability_seq db"
    unfolding ensureUserExists_def by (simp split: option.splits)
  have fc: "\<And>S E. findConflicts (ensureUserExists userId db) userId S E None
              = findConflicts db userId S E None"
    unfolding findConflicts_def ua ..
  have sb1: "\<And>r. fst (setBusyPeriod userId startUtc endUtc r (ensureUserExists userId db))
             = fst (setBusyPeriod userId startUtc endUtc r db)"
    unfolding setBusyPeriod_def AvailabilityRepository_create_def Let_def ua seq by simp
  have sb2: "\<And>r D. user_availability (snd (setBusyPeriod userId startUtc endUtc r D))
             = user_availability D @ [fst (setBusyPeriod userId startUtc endUtc r D)]"
    unfolding setBusyPeriod_def AvailabilityRepository_create_def Let_def by simp
  have 1: "validateAvailabilityInput input = Inr (startUtc, endUtc)
      \<and> findConflicts db userId startUtc endUtc None \<noteq> []
      \<longrightarrow> SetBusyCommand_execute userId input db
            = (SchedulingConflictReply (findConflicts db userId startUtc endUtc None),
               ensureUserExists userId db)
        \<and> user_availability (snd (SetBusyCommand_execute userId input db))
            = user_availability db"
    unfolding SetBusyCommand_execute_def Let_def by (simp add: fc ua)
  have 2: "validateAvailabilityInput input = Inr (startUtc, endUtc)
      \<and> findConflicts db userId startUtc endUtc None = []
      \<longrightarrow> fst (SetBusyCommand_execute userId input db)
            = BusyPeriodSetReply (fst (setBusyPeriod userId startUtc endUtc (in_reason input) db))
        \<and> user_availability (snd (SetBusyCommand_execute userId input db))
            = user_availability db
              @ [fst (setBusyPeriod userId startUtc endUtc (in_reason input) db)]"
    unfolding SetBusyCommand_execute_def Let_def
    by (simp add: fc split_beta sb1 sb2 ua)
  have 3: "validateAvailabilityInput input = Inl errors
      \<longrightarrow> SetBusyCommand_execute userId input db
            = (ValidationErrorReply errors, ensureUserExists userId db)"
    unfolding SetBusyCommand_execute_def Let_def by simp
  have 4: "validateAvailabilityInput input = Inr (startUtc, endUtc)
      \<longrightarrow> in_field_errors input = []
        \<and> in_parsed_start input = Inr startUtc \<and> in_parsed_end input = Inr endUtc
        \<and> startUtc < endUtc \<and> endUtc - startUtc \<le> 7 * 24 * 60 * 60 * 1000"
    unfolding validateAvailabilityInput_def Let_def
    by (auto split: sum.splits if_splits)
  have 5: "fst (setBusyPeriod userId startUtc endUtc reason db)
       = \<lparr>a_id = autoincrement (user_availability_seq db) (map a_id (user_availability db)),
          a_user_id = userId, a_start_datetime = startUtc, a_end_datetime = endUtc,
          a_availability_type = ''busy'', a_reason = reason, a_is_recurring = False\<rparr>"
    unfolding setBusyPeriod_def AvailabilityRepository_create_def Let_def by simp
  from 1 2 3 4 5 sb2[of reason db] show ?thesis by blast
qed


theorem set_busy_command_conflict_check_witness:
  "fst (SetBusyCommand_execute ''u1''
          \<lparr>in_field_errors = [], in_parsed_start = Inr (Date_UTC 2024 5 3 10 30),
           in_parsed_end = Inr (Date_UTC 2024 5 3 11 30), in_reason = None\<rparr> busy_database)
     = SchedulingConflictReply (user_availability busy_database)
   \<and> user_availability
       (snd (SetBusyCommand_execute ''u1''
               \<lparr>in_field_errors = [], in_parsed_start = Inr (Date_UTC 2024 5 3 10 30),
                in_parsed_end = Inr (Date_UTC 2024 5 3 11 30), in_reason = None\<rparr>
               busy_database))
       = user_availability busy_database
   \<and> map a_id
       (user_availability
          (snd (SetBusyCommand_execute ''u1''
                  \<lparr>in_field_errors = [], in_parsed_start = Inr (Date_UTC 2024 5 3 11 0),
                   in_parsed_end = Inr (Date_UTC 2024 5 3 12 0), in_reason = None\<rparr>
                  busy_database)))
       = [1, 2]
   \<and> fst (SetBusyCommand_execute ''u1''
            \<lparr>in_field_errors = [], in_parsed_start = Inr (Date_UTC 2024 5 3 12 0),
             in_parsed_end = Inr (Date_UTC 2024 5 3 11 0), in_reason = None\<rparr> busy_database)
       = ValidationErrorReply [''End time must be after start time'']"
proof -
  let ?overlapping = "\<lparr>in_field_errors = [], in_parsed_start = Inr (Date_UTC 2024 5 3 10 30),
           in_parsed_end = Inr (Date_UTC 2024 5 3 11 30), in_reason = None\<rparr>"
  let ?adjacent = "\<lparr>in_field_errors = [], in_parsed_start = Inr (Date_UTC 2024 5 3 11 0),
                   in_parsed_end = Inr (Date_UTC 2024 5 3 12 0), in_reason = None\<rparr>"
  let ?inverted = "\<lparr>in_field_errors = [], in_parsed_start = Inr (Date_UTC 2024 5 3 12 0),
             in_parsed_end = Inr (Date_UTC 2024 5 3 11 0), in_reason = None\<rparr>"
  have v1: "validateAvailabilityInput ?overlapping
              = Inr (Date_UTC 2024 5 3 10 30, Date_UTC 2024 5 3 11 30)"
    by code_simp
  have c1: "findConflicts busy_database ''u1'' (Date_UTC 2024 5 3 10 30)
              (Date_UTC 2024 5 3 11 30) None = user_availability busy_database"
    by code_simp
  have n1: "findConflicts busy_database ''u1'' (Date_UTC 2024 5 3 10 30)
              (Date_UTC 2024 5 3 11 30) None \<noteq> []"
    by code_simp
  have v2: "validateAvailabilityInput ?adjacent
              = Inr (Date_UTC 2024 5 3 11 0, Date_UTC 2024 5 3 12 0)"
    by code_simp
  have c2: "findConflicts busy_database ''u1'' (Date_UTC 2024 5 3 11 0)
              (Date_UTC 2024 5 3 12 0) None = []"
    by code_simp
  have r2: "map a_id (user_availability busy_database
              @ [fst (setBusyPeriod ''u1'' (Date_UTC 2024 5 3 11 0) (Date_UTC 2024 5 3 12 0)
                        (in_reason ?adjacent) busy_database)]) = [1, 2]"
    by code_simp
  have v3: "validateAvailabilityInput ?inverted = Inl [''End time must be after start time'']"
    by code_simp
  from set_busy_command_conflict_check
         [of ?overlapping "Date_UTC 2024 5 3 10 30" "Date_UTC 2024 5 3 11 30" busy_database
             "''u1''" "[]" None] v1 n1
  have "SetBusyCommand_execute ''u1'' ?overlapping busy_database
          = (SchedulingConflictReply
               (findConflicts busy_database ''u1'' (Date_UTC 2024 5 3 10 30)
                  (Date_UTC 2024 5 3 11 30) None),
             ensureUserExists ''u1'' busy_database)
        \<and> user_availability (snd (SetBusyCommand_execute ''u1'' ?overlapping busy_database))
          = user_availability busy_database"
    by blast
  then have 1: "fst (SetBusyCommand_execute ''u1'' ?overlapping busy_database)
             = SchedulingConflictReply (user_availability busy_database)
           \<and> user_availability (snd (SetBusyCommand_execute ''u1'' ?overlapping busy_database))
             = user_availability busy_database"
    unfolding c1 by (metis fst_conv)
  from set_busy_command_conflict_check
         [of ?adjacent "Date_UTC 2024 5 3 11 0" "Date_UTC 2024 5 3 12 0" busy_database
             "''u1''" "[]" None] v2 c2
  have "user_availability (snd (SetBusyCommand_execute ''u1'' ?adjacent busy_database))
          = user_availability busy_database
            @ [fst (setBusyPeriod ''u1'' (Date_UTC 2024 5 3 11 0) (Date_UTC 2024 5 3 12 0)
                      (in_reason ?adjacent) busy_database)]"
    by blast
  with r2 have 2: "map a_id (user_availability
             (snd (SetBusyCommand_execute ''u1'' ?adjacent busy_database))) = [1, 2]"
    by metis
  from set_busy_command_conflict_check
         [of ?inverted "Date_UTC 2024 5 3 12 0" "Date_UTC 2024 5 3 11 0" busy_database "''u1''"
             "[''End time must be after start time'']" None] v3
  have "SetBusyCommand_execute ''u1'' ?inverted busy_database
          = (ValidationErrorReply [''End time must be after start time''],
             ensureUserExists ''u1'' busy_database)"
    by blast
  then have 3: "fst (SetBusyCommand_execute ''u1'' ?inverted busy_database)
             = ValidationErrorReply [''End time must be after start time'']"
    by (metis fst_conv)
  from 1 2 3 show ?thesis by blast
qed

text \<open>
  C7. The claim: \<open>reschedule\<close> sets the meeting's pending jobs to \<open>cancelled\<close> and never
  deletes a row. The code deletes them: after rescheduling meeting 1, whose job 1 is
  pending, to the next day, the table holds only the new job 2; job 1 is gone, and no
  row is \<open>cancelled\<close>.
\<close>

theorem reschedule_deletes_the_pending_job:
  "map (\<lambda>n. (n_id n, n_status n)) (notifications dispatch_database) = [(1, ''pending'')]
   \<and> map (\<lambda>n. (n_id n, n_notification_time n, n_status n))
       (notifications
          (rescheduleNotifications example_zones (Date_UTC 2024 5 1 10 0) 1
             (Some (Date_UTC 2024 5 2 12 0)) dispatch_database))
       = [(2, Date_UTC 2024 5 2 11 0, ''pending'')]"
  by code_simp

text \<open>
  C7, as amended. \<open>rescheduleNotifications\<close> deletes the pending jobs of the meeting and
  then, when the meeting exists, is \<open>scheduleNotifications\<close> of the meeting with the new
  time on what is left; when the meeting does not exist it only deletes. So the rows of
  other meetings and the rows that are not pending stay as they are and in their order,
  and whatever the new scheduling adds are pending jobs of that meeting.
  \<open>cancelNotifications\<close> deletes nothing: it keeps every row, changes the status of the
  meeting's pending jobs to \<open>cancelled\<close> and leaves every other column and every other
  row as it is.
\<close>

theorem reschedule_deletes_cancel_keeps:
  "(MeetingRepository_findById db meetingId = Some meeting \<longrightarrow>
      rescheduleNotifications zones now meetingId newDateTime db
      = scheduleNotifications zones now (meeting\<lparr>m_proposed_datetime := newDateTime\<rparr>)
          (db\<lparr>notifications :=
                filter (\<lambda>n. \<not> is_pending_job_of meetingId n) (notifications db)\<rparr>))
   \<and> (MeetingRepository_findById db meetingId = None \<longrightarrow>
      rescheduleNotifications zones now meetingId newDateTime db
      = db\<lparr>notifications :=
              filter (\<lambda>n. \<not> is_pending_job_of meetingId n) (notifications db)\<rparr>)
   \<and> (\<exists>new. notifications (rescheduleNotifications zones now meetingId newDateTime db)
            = filter (\<lambda>n. \<not> is_pending_job_of meetingId n) (notifications db) @ new
          \<and> list_all (is_pending_job_of meetingId) new)
   \<and> map (\<lambda>n. n\<lparr>n_status := []\<rparr>) (notifications (cancelNotifications meetingId db))
       = map (\<lambda>n. n\<lparr>n_status := []\<rparr>) (notifications db)
   \<and> map n_status (notifications (cancelNotifications meetingId db))
       = map (\<lambda>n. if is_pending_job_of meetingId n then ''cancelled'' else n_status n)
           (notifications db)"
proof -
  define db1 where "db1 = db\<lparr>notifications :=
                  filter (\<lambda>n. \<not> (n_meeting_id n = meetingId \<and> n_status n = ''pending''))
                    (notifications db)\<rparr>"
  have d1: "notifications db1 = filter (\<lambda>n. \<not> is_pending_job_of meetingId n) (notifications db)"
    unfolding db1_def is_pending_job_of_def by simp
  have d2: "db1 = db\<lparr>notifications :=
                     filter (\<lambda>n. \<not> is_pending_job_of meetingId n) (notifications db)\<rparr>"
    unfolding db1_def is_pending_job_of_def by simp
  have fb: "MeetingRepository_findById db1 meetingId = MeetingRepository_findById db meetingId"
    unfolding db1_def MeetingRepository_findById_def by simp
  have e1: "rescheduleNotifications zones now meetingId newDateTime db
        = scheduleNotifications zones now (meeting\<lparr>m_proposed_datetime := newDateTime\<rparr>) db1"
    if "MeetingRepository_findById db meetingId = Some meeting"
    using that fb unfolding rescheduleNotifications_def db1_def by (simp add: Let_def)
  have e2: "rescheduleNotifications zones now meetingId newDateTime db = db1"
    if "MeetingRepository_findById db meetingId = None"
    using that fb unfolding rescheduleNotifications_def db1_def by (simp add: Let_def)
  have r: "\<exists>new. notifications (rescheduleNotifications zones now meetingId newDateTime db)
            = filter (\<lambda>n. \<not> is_pending_job_of meetingId n) (notifications db) @ new
          \<and> list_all (is_pending_job_of meetingId) new"
  proof (cases "MeetingRepository_findById db1 meetingId")
    case None
    then have "rescheduleNotifications zones now meetingId newDateTime db = db1"
      unfolding rescheduleNotifications_def db1_def by (simp add: Let_def)
    with d1 show ?thesis by simp
  next
    case (Some meeting)
    then have mid: "m_id (meeting\<lparr>m_proposed_datetime := newDateTime\<rparr>) = meetingId"
      using MeetingRepository_findById_id by simp
    from Some have "rescheduleNotifications zones now meetingId newDateTime db
        = scheduleNotifications zones now (meeting\<lparr>m_proposed_datetime := newDateTime\<rparr>) db1"
      unfolding rescheduleNotifications_def db1_def by (simp add: Let_def)
    with scheduleNotifications_appends[of zones now "meeting\<lparr>m_proposed_datetime := newDateTime\<rparr>" db1]
      d1 mid
    show ?thesis unfolding is_pending_job_of_def by (auto simp: list_all_iff)
  qed
  have c1: "map (\<lambda>n. n\<lparr>n_status := []\<rparr>) (notifications (cancelNotifications meetingId db))
       = map (\<lambda>n. n\<lparr>n_status := []\<rparr>) (notifications db)"
    unfolding cancelNotifications_def by simp
  have c2: "map n_status (notifications (cancelNotifications meetingId db))
       = map (\<lambda>n. if is_pending_job_of meetingId n then ''cancelled'' else n_status n)
           (notifications db)"
    unfolding cancelNotifications_def is_pending_job_of_def by simp
  from e1 e2 r c1 c2 show ?thesis unfolding d2 by blast
qed

theorem reschedule_deletes_cancel_keeps_witness:
  "MeetingRepository_findById dispatch_database 1
     = Some (example_meeting 1 (Date_UTC 2024 5 1 12 0))
   \<and> rescheduleNotifications example_zones (Date_UTC 2024 5 1 10 0) 1
       (Some (Date_UTC 2024 5 2 12 0)) dispatch_database
     = scheduleNotifications example_zones (Date_UTC 2024 5 1 10 0)
         (example_meeting 1 (Date_UTC 2024 5 2 12 0))
         (dispatch_database\<lparr>notifications := []\<rparr>)
   \<and> MeetingRepository_findById dispatch_database 9 = None
   \<and> rescheduleNotifications example_zones (Date_UTC 2024 5 1 10 0) 9
       (Some (Date_UTC 2024 5 2 12 0)) dispatch_database
     = dispatch_database"
proof -
  have f: "MeetingRepository_findById dispatch_database 1
             = Some (example_meeting 1 (Date_UTC 2024 5 1 12 0))"
    by code_simp
  have m: "(example_meeting 1 (Date_UTC 2024 5 1 12 0))
             \<lparr>m_proposed_datetime := Some (Date_UTC 2024 5 2 12 0)\<rparr>
           = example_meeting 1 (Date_UTC 2024 5 2 12 0)"
    unfolding example_meeting_def by simp
  have k: "filter (\<lambda>n. \<not> is_pending_job_of 1 n) (notifications dispatch_database) = []"
    by code_simp
  have g: "MeetingRepository_findById dispatch_database 9 = None"
    by code_simp
  have k9: "filter (\<lambda>n. \<not> is_pending_job_of 9 n) (notifications dispatch_database)
            = notifications dispatch_database"
    by code_simp
  from reschedule_deletes_cancel_keeps
         [where db = dispatch_database and meetingId = 1
            and meeting = "example_meeting 1 (Date_UTC 2024 5 1 12 0)"
            and zones = example_zones and now = "Date_UTC 2024 5 1 10 0"
            and newDateTime = "Some (Date_UTC 2024 5 2 12 0)"] f
  have "rescheduleNotifications example_zones (Date_UTC 2024 5 1 10 0) 1
          (Some (Date_UTC 2024 5 2 12 0)) dispatch_database
        = scheduleNotifications example_zones (Date_UTC 2024 5 1 10 0)
            ((example_meeting 1 (Date_UTC 2024 5 1 12 0))
               \<lparr>m_proposed_datetime := Some (Date_UTC 2024 5 2 12 0)\<rparr>)
            (dispatch_database\<lparr>notifications :=
               filter (\<lambda>n. \<not> is_pending_job_of 1 n) (notifications dispatch_database)\<rparr>)"
    by blast
  then have 1: "rescheduleNotifications example_zones (Date_UTC 2024 5 1 10 0) 1
          (Some (Date_UTC 2024 5 2 12 0)) dispatch_database
        = scheduleNotifications example_zones (Date_UTC 2024 5 1 10 0)
            (example_meeting 1 (Date_UTC 2024 5 2 12 0))
            (dispatch_database\<lparr>notifications := []\<rparr>)"
    unfolding m k .
  from reschedule_deletes_cancel_keeps
         [where db = dispatch_database and meetingId = 9
            and meeting = "example_meeting 1 (Date_UTC 2024 5 1 12 0)"
            and zones = example_zones and now = "Date_UTC 2024 5 1 10 0"
            and newDateTime = "Some (Date_UTC 2024 5 2 12 0)"] g
  have "rescheduleNotifications example_zones (Date_UTC 2024 5 1 10 0) 9
          (Some (Date_UTC 2024 5 2 12 0)) dispatch_database
        = dispatch_database\<lparr>notifications :=
               filter (\<lambda>n. \<not> is_pending_job_of 9 n) (notifications dispatch_database)\<rparr>"
    by blast
  then have 2: "rescheduleNotifications example_zones (Date_UTC 2024 5 1 10 0) 9
          (Some (Date_UTC 2024 5 2 12 0)) dispatch_database = dispatch_database"
    unfolding k9 by simp
  from f 1 g 2 show ?thesis by blast
qed

text \<open>
  C8. The claim: a token whose unit is not h, m or d is rejected with
  \<open>InvalidOffsetToken\<close> and no job is created. The code has no such error: for the
  token \<open>5x\<close> the scheduler returns normally and creates a job that fires at the time of
  the meeting itself.
\<close>

theorem unknown_unit_creates_job:
  "map_sum id (\<lambda>db'. map (\<lambda>n. (n_notification_type n, n_notification_time n, n_status n))
                       (notifications db'))
     (scheduleUserNotifications example_zones (Date_UTC 2024 5 1 10 0)
        (example_meeting 1 (Date_UTC 2024 5 1 12 0))
        \<lparr>p_id = Some ''u1'', p_timezone = ''UTC'', p_response = ''available'',
         p_responded_at = Date_UTC 2024 4 30 8 0\<rparr>
        (meeting_database ''UTC'' [''5x'']))
   = Inr [(''5x'', Date_UTC 2024 5 1 12 0, ''pending'')]"
  by code_simp

text \<open>
  C8, as amended. A token is read as its last character, the unit, and \<open>parseInt\<close> of
  what comes before it. With the unit h, m or d and an integer value, the fire time is
  the given meeting time minus that many hours, minutes or days. With any other unit
  nothing is rejected and the time is returned as it was given: the job is created at
  the meeting time when that is later than now.
\<close>

theorem offset_token_units:
  "(slice_last token = ''h'' \<and> parseInt (slice_init token) = Some v
      \<longrightarrow> calculateNotificationTime (Some t) token = TimeClip (t - v * msPerHour))
   \<and> (slice_last token = ''m'' \<and> parseInt (slice_init token) = Some v
      \<longrightarrow> calculateNotificationTime (Some t) token = TimeClip (t - v * msPerMinute))
   \<and> (slice_last token = ''d'' \<and> parseInt (slice_init token) = Some v
      \<longrightarrow> calculateNotificationTime (Some t) token = TimeClip (t - v * msPerDay))
   \<and> (slice_last token \<noteq> ''h'' \<and> slice_last token \<noteq> ''m'' \<and> slice_last token \<noteq> ''d''
      \<longrightarrow> calculateNotificationTime meetingTime token = meetingTime
        \<and> reminder_loop now meetingId userId (Some t) [token] db
            = (if t > now then createNotificationRecord meetingId userId t token db else db))"
proof -
  have d: "setDate t (getDate t - v) = TimeClip (t - v * msPerDay)"
    using setDate_getDate[of t "- v"] by simp
  have units: "(slice_last token = ''h'' \<and> parseInt (slice_init token) = Some v
      \<longrightarrow> calculateNotificationTime (Some t) token = TimeClip (t - v * msPerHour))
   \<and> (slice_last token = ''m'' \<and> parseInt (slice_init token) = Some v
      \<longrightarrow> calculateNotificationTime (Some t) token = TimeClip (t - v * msPerMinute))
   \<and> (slice_last token = ''d'' \<and> parseInt (slice_init token) = Some v
      \<longrightarrow> calculateNotificationTime (Some t) token = TimeClip (t - v * msPerDay))"
    unfolding calculateNotificationTime_def Let_def
    by (simp add: setHours_getHours setMinutes_getMinutes d)
  have other: "calculateNotificationTime mt token = mt"
    if "slice_last token \<noteq> ''h'' \<and> slice_last token \<noteq> ''m'' \<and> slice_last token \<noteq> ''d''"
    for mt
    using that unfolding calculateNotificationTime_def Let_def
    by (simp split: option.splits)
  have loop: "reminder_loop now meetingId userId (Some t) [token] db
            = (if t > now then createNotificationRecord meetingId userId t token db else db)"
    if "slice_last token \<noteq> ''h'' \<and> slice_last token \<noteq> ''m'' \<and> slice_last token \<noteq> ''d''"
    using other[OF that, of "Some t"] by simp
  from units other loop show ?thesis by blast
qed

theorem offset_token_units_witness:
  "calculateNotificationTime (Some (Date_UTC 2024 5 1 12 0)) ''24h''
     = Some (Date_UTC 2024 4 31 12 0)
   \<and> calculateNotificationTime (Some (Date_UTC 2024 5 1 12 0)) ''15m''
     = Some (Date_UTC 2024 5 1 11 45)
   \<and> calculateNotificationTime (Some (Date_UTC 2024 5 1 12 0)) ''2d''
     = Some (Date_UTC 2024 4 30 12 0)
   \<and> calculateNotificationTime (Some (Date_UTC 2024 5 1 12 0)) ''5x''
     = Some (Date_UTC 2024 5 1 12 0)"
proof -
  have h: "slice_last ''24h'' = ''h'' \<and> parseInt (slice_init ''24h'') = Some 24" by code_simp
  have m: "slice_last ''15m'' = ''m'' \<and> parseInt (slice_init ''15m'') = Some 15" by code_simp
  have d: "slice_last ''2d'' = ''d'' \<and> parseInt (slice_init ''2d'') = Some 2" by code_simp
  have x: "slice_last ''5x'' \<noteq> ''h'' \<and> slice_last ''5x'' \<noteq> ''m'' \<and> slice_last ''5x'' \<noteq> ''d''"
    by code_simp
  have th: "TimeClip (Date_UTC 2024 5 1 12 0 - 24 * msPerHour) = Some (Date_UTC 2024 4 31 12 0)"
    by code_simp
  have tm: "TimeClip (Date_UTC 2024 5 1 12 0 - 15 * msPerMinute) = Some (Date_UTC 2024 5 1 11 45)"
    by code_simp
  have td: "TimeClip (Date_UTC 2024 5 1 12 0 - 2 * msPerDay) = Some (Date_UTC 2024 4 30 12 0)"
    by code_simp
  from offset_token_units[of "''24h''" 24 "Date_UTC 2024 5 1 12 0"] h th
  have 1: "calculateNotificationTime (Some (Date_UTC 2024 5 1 12 0)) ''24h''
     = Some (Date_UTC 2024 4 31 12 0)" by simp
  from offset_token_units[of "''15m''" 15 "Date_UTC 2024 5 1 12 0"] m tm
  have 2: "calculateNotificationTime (Some (Date_UTC 2024 5 1 12 0)) ''15m''
     = Some (Date_UTC 2024 5 1 11 45)" by simp
  from offset_token_units[of "''2d''" 2 "Date_UTC 2024 5 1 12 0"] d td
  have 3: "calculateNotificationTime (Some (Date_UTC 2024 5 1 12 0)) ''2d''
     = Some (Date_UTC 2024 4 30 12 0)" by simp
  from offset_token_units[of "''5x''" _ _ "Some (Date_UTC 2024 5 1 12 0)"] x
  have 4: "calculateNotificationTime (Some (Date_UTC 2024 5 1 12 0)) ''5x''
     = Some (Date_UTC 2024 5 1 12 0)" by simp
  from 1 2 3 4 show ?thesis by simp
qed

text \<open>
  C9. The claim: when the recipient cannot be fetched, the job that was attempted gets
  the status \<open>user_not_found\<close> and is never attempted again. \<open>sendNotification\<close> passes
  \<open>notification.id\<close> to \<open>markNotificationSent\<close>, and in the row object of the sweep's
  query that is the id of the meeting. Job 1 of meeting 7 stays \<open>pending\<close> after a sweep
  that found no user, and the next sweep reads it as due again; where job 1 belongs to
  meeting 2 and job 2 to meeting 1, the sweep that attempts job 2 writes
  \<open>user_not_found\<close> into job 1, which had been sent, and leaves job 2 pending.
\<close>

theorem user_not_found_is_written_to_the_row_with_the_meeting_id:
  "map (\<lambda>n. (n_id n, n_status n))
     (notifications
        (processScheduledNotifications (\<lambda>n. NoUser) (Date_UTC 2024 5 1 11 5) orphan_database))
     = [(1, ''pending'')]
   \<and> map d_meeting_id
       (pendingNotifications (Date_UTC 2024 5 1 11 10)
          (processScheduledNotifications (\<lambda>n. NoUser) (Date_UTC 2024 5 1 11 5)
             orphan_database))
       = [7]
   \<and> map (\<lambda>n. (n_id n, n_meeting_id n, n_status n)) (notifications crossed_database)
       = [(1, 2, ''sent''), (2, 1, ''pending'')]
   \<and> map (\<lambda>n. (n_id n, n_meeting_id n, n_status n))
       (notifications
          (processScheduledNotifications (\<lambda>n. NoUser) (Date_UTC 2024 5 1 11 5)
             crossed_database))
       = [(1, 2, ''user_not_found''), (2, 1, ''pending'')]"
  by code_simp

text \<open>
  C10. \<open>scheduleNotifications\<close> creates jobs only for participants whose recorded response
  to the meeting is \<open>available\<close> or \<open>maybe\<close>: the jobs of the call are appended to the
  table, each of them belongs to a user with such a response; a user without one (no
  response, or \<open>unavailable\<close>) gets no job; and when no participant is interested the
  database is left as it was.
\<close>

theorem jobs_only_for_interested_participants:
  "\<exists>new. notifications (scheduleNotifications zones now meeting db) = notifications db @ new
       \<and> list_all (\<lambda>n. responded_interested db (m_id meeting) (n_user_id n)) new
       \<and> (\<not> responded_interested db (m_id meeting) userId
            \<longrightarrow> list_all (\<lambda>n. n_user_id n \<noteq> userId) new)
       \<and> (filter interested (getParticipants db (m_id meeting)) = []
            \<longrightarrow> new = [] \<and> scheduleNotifications zones now meeting db = db)"
proof -
  from scheduleNotifications_appends[of zones now meeting db] obtain new where
    n: "notifications (scheduleNotifications zones now meeting db) = notifications db @ new"
    and a: "list_all (\<lambda>n. n_meeting_id n = m_id meeting \<and> n_status n = ''pending''
                        \<and> responded_interested db (m_id meeting) (n_user_id n)) new" by blast
  have 1: "list_all (\<lambda>n. responded_interested db (m_id meeting) (n_user_id n)) new"
    using a by (auto simp: list_all_iff)
  have 2: "\<not> responded_interested db (m_id meeting) userId
            \<longrightarrow> list_all (\<lambda>n. n_user_id n \<noteq> userId) new"
    using 1 by (auto simp: list_all_iff)
  have 3: "filter interested (getParticipants db (m_id meeting)) = []
            \<longrightarrow> new = [] \<and> scheduleNotifications zones now meeting db = db"
  proof
    assume e: "filter interested (getParticipants db (m_id meeting)) = []"
    then have "scheduleNotifications zones now meeting db = db"
      unfolding scheduleNotifications_def by (simp add: Let_def)
    with n show "new = [] \<and> scheduleNotifications zones now meeting db = db" by simp
  qed
  from n 1 2 3 show ?thesis by blast
qed


theorem jobs_only_for_interested_participants_witness:
  "\<not> responded_interested two_user_database 1 ''u2''
   \<and> \<not> responded_interested two_user_database 1 ''u3''
   \<and> responded_interested two_user_database 1 ''u1''
   \<and> list_all (\<lambda>n. n_user_id n \<noteq> ''u2'' \<and> n_user_id n \<noteq> ''u3'')
       (notifications
          (scheduleNotifications example_zones (Date_UTC 2024 5 1 10 0)
             (example_meeting 1 (Date_UTC 2024 5 1 12 0)) two_user_database))
   \<and> filter interested (getParticipants empty_database 1) = []
   \<and> scheduleNotifications example_zones (Date_UTC 2024 5 1 10 0)
       (example_meeting 1 (Date_UTC 2024 5 1 12 0)) empty_database = empty_database"
proof -
  let ?db' = "scheduleNotifications example_zones (Date_UTC 2024 5 1 10 0)
                (example_meeting 1 (Date_UTC 2024 5 1 12 0)) two_user_database"
  have m: "m_id (example_meeting 1 (Date_UTC 2024 5 1 12 0)) = 1"
    unfolding example_meeting_def by simp
  have u2: "\<not> responded_interested two_user_database 1 ''u2''" by code_simp
  have u3: "\<not> responded_interested two_user_database 1 ''u3''" by code_simp
  have u1: "responded_interested two_user_database 1 ''u1''" by code_simp
  have e: "notifications two_user_database = []" by code_simp
  from jobs_only_for_interested_participants
         [of example_zones "Date_UTC 2024 5 1 10 0" "example_meeting 1 (Date_UTC 2024 5 1 12 0)"
             two_user_database "''u2''"] m u2 e
  have a2: "list_all (\<lambda>n. n_user_id n \<noteq> ''u2'') (notifications ?db')"
    by auto
  from jobs_only_for_interested_participants
         [of example_zones "Date_UTC 2024 5 1 10 0" "example_meeting 1 (Date_UTC 2024 5 1 12 0)"
             two_user_database "''u3''"] m u3 e
  have a3: "list_all (\<lambda>n. n_user_id n \<noteq> ''u3'') (notifications ?db')"
    by auto
  have none: "filter interested (getParticipants empty_database 1) = []" by code_simp
  from jobs_only_for_interested_participants
         [of example_zones "Date_UTC 2024 5 1 10 0" "example_meeting 1 (Date_UTC 2024 5 1 12 0)"
             empty_database] m none
  have unchanged: "scheduleNotifications example_zones (Date_UTC 2024 5 1 10 0)
       (example_meeting 1 (Date_UTC 2024 5 1 12 0)) empty_database = empty_database"
    by auto
  from a2 a3 have "list_all (\<lambda>n. n_user_id n \<noteq> ''u2'' \<and> n_user_id n \<noteq> ''u3'')
                     (notifications ?db')"
    by (simp add: list_all_iff)
  with u1 u2 u3 none unchanged show ?thesis by simp
qed

end
